theory Spec2Isabelle
  imports Complex_Main
begin

section \<open>Shared parts of the two controllers\<close>

text \<open>
  The repository holds two controllers with the same state machine:
  \<^verbatim>\<open>run_simulation_binary.py\<close> (two debounced presence sensors per approach) and
  \<^verbatim>\<open>run_simulation_queue_based.py\<close> (three zone counts per approach). The
  \<^verbatim>\<open>_with_seeds\<close> files repeat the same classes. Names of the binary file are kept
  as they are; names of the queue file carry the suffix \<open>_q\<close> where both files use
  the same name.

  Python floats are modelled as \<open>real\<close> and Python ints as \<open>int\<close>: the model
  computes exactly where the program rounds to binary64.
\<close>

subsection \<open>Configuration constants\<close>

text \<open>
  The constants at the head of each file are module-level names that the functions read
  when they run. They are gathered in a record that every function reading one of them
  takes as its first argument, so that a statement can speak of the file as written
  (\<open>module_config\<close>, \<open>module_config_q\<close>) or of the file with other values. The
  literals the code writes inline (\<open>0.5\<close>, \<open>120.0\<close>, \<open>7.5\<close>, ...) stay literals.
\<close>

record config =
  G_MIN :: real
  G_MAX :: real
  YELLOW_TIME :: real
  ALL_RED_TIME :: real
  NEAR_SENSOR_DISTANCE :: real
  FAR_SENSOR_DISTANCE :: real
  SENSOR_DELAY :: int

definition module_config :: config where
  "module_config =
     \<lparr> G_MIN = 10, G_MAX = 40, YELLOW_TIME = 3, ALL_RED_TIME = 1,
       NEAR_SENSOR_DISTANCE = 20, FAR_SENSOR_DISTANCE = 50, SENSOR_DELAY = 10 \<rparr>"

record config_q =
  G_MIN_q :: real
  G_MAX_q :: real
  YELLOW_TIME_q :: real
  ALL_RED_TIME_q :: real
  ZONE_NEAR :: real
  ZONE_MEDIUM :: real
  ZONE_FAR :: real
  WEIGHT_NEAR :: real
  WEIGHT_MEDIUM :: real
  WEIGHT_FAR :: real

definition module_config_q :: config_q where
  "module_config_q =
     \<lparr> G_MIN_q = 10, G_MAX_q = 40, YELLOW_TIME_q = 3, ALL_RED_TIME_q = 1,
       ZONE_NEAR = 25, ZONE_MEDIUM = 60, ZONE_FAR = 100,
       WEIGHT_NEAR = 3, WEIGHT_MEDIUM = 2, WEIGHT_FAR = 1 \<rparr>"

text \<open>
  The table \<^verbatim>\<open>INTERSECTIONS\<close> has the keys 0, 1 and 2; only the columns the
  controller reads are kept (\<^verbatim>\<open>edge\<close> and \<^verbatim>\<open>tl_links\<close>; every row has
  \<^verbatim>\<open>tl_id = 'center'\<close>). The loops \<^verbatim>\<open>for idx, data in INTERSECTIONS.items()\<close> and
  \<^verbatim>\<open>for i in range(3)\<close> both visit \<open>range3\<close> in this order.
\<close>

definition range3 :: "int list" where "range3 = [0, 1, 2]"

definition edge :: "int \<Rightarrow> string" where
  "edge idx = (if idx = 0 then ''r1_in'' else if idx = 1 then ''r2_in'' else ''r3_in'')"

definition tl_links :: "int \<Rightarrow> nat list" where
  "tl_links idx = (if idx = 0 then [0, 1] else if idx = 1 then [2, 3] else [4, 5])"

subsection \<open>The simulator as seen through TraCI\<close>

text \<open>
  Every query of the simulator may raise. A vehicle id is modelled by what the queries
  on it return: \<open>getLaneLength\<close> stands for the two calls
  \<^verbatim>\<open>traci.lane.getLength(traci.vehicle.getLaneID(veh_id))\<close>, which fail together for
  the code. One tick of the simulator is a \<open>perception\<close>: the vehicle ids on each edge
  and the list of arrived vehicles. The simulator does not move between the queries of
  one tick, so a query repeated within a tick returns the same result.
\<close>

datatype traci_error = TraCIException

type_synonym 'a traci = "traci_error + 'a"

record vehicle =
  getLanePosition :: "real traci"
  getLaneLength :: "real traci"
  getSpeed :: "real traci"

record perception =
  getLastStepVehicleIDs :: "string \<Rightarrow> vehicle list traci"
  getArrivedIDList :: "string list traci"

subsection \<open>Helpers of both files\<close>

text \<open>\<^verbatim>\<open>str.upper()\<close> on the ASCII letters.\<close>

definition upper_char :: "char \<Rightarrow> char" where
  "upper_char ch =
     (let n = (of_char ch :: nat) in if 97 \<le> n \<and> n \<le> 122 then char_of (n - 32) else ch)"

text \<open>
  \<^verbatim>\<open>round(x, 1)\<close>: to one decimal place, a tie going to the even digit (Python
  rounds the exact value of the float half to even).
\<close>

definition round1 :: "real \<Rightarrow> real" where
  "round1 x =
     (let y = x * 10; f = \<lfloor>y\<rfloor>; d = y - of_int f
      in (if d < 1 / 2 then of_int f
          else if d > 1 / 2 then of_int (f + 1)
          else if even f then of_int f else of_int (f + 1)) / 10)"

text \<open>
  The light program of the junction is a string held by the simulator, one character
  per link; \<^verbatim>\<open>set_traffic_light\<close> reads it, overwrites the links of one approach
  that exist in it, and writes it back. The two calls on the traffic light are taken to
  answer: the code never guards them, and the statements below are about the states
  the controller is in when its ticks return.
\<close>

definition write_links :: "nat list \<Rightarrow> char \<Rightarrow> string \<Rightarrow> string" where
  "write_links links state current_state =
     fold (\<lambda>link cs. if link < length cs then cs[link := state] else cs) links current_state"

section \<open>The binary-sensor controller\<close>

record IntersectionState =
  id_idx :: int
  near_sensor_occupied :: bool
  far_sensor_occupied :: bool
  current_light :: string
  last_green_end :: int
  state_start :: int
  planned_duration :: real
  consecutive_greens :: int
  near_detect_time :: int
  far_detect_time :: int

definition IntersectionState_init :: "int \<Rightarrow> IntersectionState" where
  "IntersectionState_init idx =
     \<lparr> id_idx = idx, near_sensor_occupied = False, far_sensor_occupied = False,
       current_light = ''RED'', last_green_end = 0, state_start = 0,
       planned_duration = 0, consecutive_greens = 0,
       near_detect_time = 0, far_detect_time = 0 \<rparr>"

text \<open>
  The dict \<^verbatim>\<open>self.intersections\<close> is built once with the keys 0, 1, 2 and never
  gains or loses a key, so it is a function on the index. The field \<open>tl_state\<close> is not
  a field of the class: it is the light program held by the simulator, given when the
  controller starts.
\<close>

record SimulationController =
  intersections :: "int \<Rightarrow> IntersectionState"
  active_idx :: int
  is_all_red :: bool
  all_red_start :: int
  cycle_count :: int
  total_waiting_time :: int
  vehicles_processed :: int
  tl_state :: string

definition SimulationController_init :: "string \<Rightarrow> SimulationController" where
  "SimulationController_init program =
     \<lparr> intersections = IntersectionState_init, active_idx = - 1, is_all_red = True,
       all_red_start = 0, cycle_count = 0, total_waiting_time = 0,
       vehicles_processed = 0, tl_state = program \<rparr>"

subsection \<open>Sensing\<close>

text \<open>
  The body of the inner \<^verbatim>\<open>try\<close> for one vehicle: the four queries come before the
  two tests, so a failing query leaves both candidates as they were.
\<close>

definition detect_vehicle :: "config \<Rightarrow> vehicle \<Rightarrow> bool \<times> bool \<Rightarrow> bool \<times> bool" where
  "detect_vehicle cfg veh_id now =
     (case getLanePosition veh_id of Inl _ \<Rightarrow> now | Inr pos \<Rightarrow>
      case getLaneLength veh_id of Inl _ \<Rightarrow> now | Inr lane_length \<Rightarrow>
      case getSpeed veh_id of Inl _ \<Rightarrow> now | Inr speed \<Rightarrow>
        (let dist_to_intersection = lane_length - pos;
             near_detected_now =
               (if dist_to_intersection \<le> NEAR_SENSOR_DISTANCE cfg \<and> speed < 0.5
                then True else fst now);
             far_detected_now =
               (if dist_to_intersection \<le> FAR_SENSOR_DISTANCE cfg \<and> speed < 0.5
                then True else snd now)
         in (near_detected_now, far_detected_now)))"

definition near_persistence :: "config \<Rightarrow> int \<Rightarrow> bool \<Rightarrow> IntersectionState \<Rightarrow> IntersectionState" where
  "near_persistence cfg step near_detected_now intr =
     (if near_detected_now then
        (let intr = (if near_detect_time intr = 0
                      then intr\<lparr>near_detect_time := step\<rparr> else intr)
         in if step - near_detect_time intr \<ge> SENSOR_DELAY cfg
            then intr\<lparr>near_sensor_occupied := True\<rparr>
            else intr\<lparr>near_sensor_occupied := False\<rparr>)
      else intr\<lparr>near_detect_time := 0, near_sensor_occupied := False\<rparr>)"

definition far_persistence :: "config \<Rightarrow> int \<Rightarrow> bool \<Rightarrow> IntersectionState \<Rightarrow> IntersectionState" where
  "far_persistence cfg step far_detected_now intr =
     (if far_detected_now then
        (let intr = (if far_detect_time intr = 0
                      then intr\<lparr>far_detect_time := step\<rparr> else intr)
         in if step - far_detect_time intr \<ge> SENSOR_DELAY cfg
            then intr\<lparr>far_sensor_occupied := True\<rparr>
            else intr\<lparr>far_sensor_occupied := False\<rparr>)
      else intr\<lparr>far_detect_time := 0, far_sensor_occupied := False\<rparr>)"

text \<open>One round of the loop of \<^verbatim>\<open>update_sensors\<close>, for the approach \<open>idx\<close>.\<close>

definition update_sensor :: "config \<Rightarrow> int \<Rightarrow> perception \<Rightarrow> int \<Rightarrow> SimulationController \<Rightarrow> SimulationController" where
  "update_sensor cfg step sim idx c =
     (let vehicle_ids = (case getLastStepVehicleIDs sim (edge idx) of
                           Inl _ \<Rightarrow> [] | Inr ids \<Rightarrow> ids);
          (near_detected_now, far_detected_now) = fold (detect_vehicle cfg) vehicle_ids (False, False);
          intr = intersections c idx;
          intr = near_persistence cfg step near_detected_now intr;
          intr = far_persistence cfg step far_detected_now intr
      in c\<lparr>intersections := (intersections c)(idx := intr)\<rparr>)"

definition update_sensors :: "config \<Rightarrow> int \<Rightarrow> perception \<Rightarrow> SimulationController \<Rightarrow> SimulationController" where
  "update_sensors cfg step sim c = fold (update_sensor cfg step sim) range3 c"

subsection \<open>Priority and light commands\<close>

definition get_priority :: "SimulationController \<Rightarrow> int \<Rightarrow> int \<Rightarrow> real" where
  "get_priority c idx step =
     (let intr = intersections c idx;
          priority = 0;
          priority = (if near_sensor_occupied intr then priority + 1 else priority);
          priority = (if far_sensor_occupied intr then priority + 2 else priority);
          priority = priority + min (real_of_int (step - last_green_end intr) / 120) 1;
          monopoly_penalty = real_of_int (consecutive_greens intr) * 3;
          priority = priority - monopoly_penalty
      in max priority 0.1)"

definition set_traffic_light :: "int \<Rightarrow> char \<Rightarrow> SimulationController \<Rightarrow> SimulationController" where
  "set_traffic_light idx state c =
     c\<lparr> tl_state := write_links (tl_links idx) state (tl_state c),
        intersections := (intersections c)
          (idx := (intersections c idx)\<lparr>current_light := [upper_char state]\<rparr>) \<rparr>"

subsection \<open>One tick\<close>

text \<open>
  The two metric loops at the head of \<^verbatim>\<open>run_step\<close> query the simulator outside
  any \<^verbatim>\<open>try\<close>: a failing query ends \<^verbatim>\<open>run_step\<close> with the exception.
\<close>

fun count_waiting :: "vehicle list \<Rightarrow> int \<Rightarrow> int traci" where
  "count_waiting [] waiting = Inr waiting"
| "count_waiting (veh_id # rest) waiting =
     (case getSpeed veh_id of
        Inl e \<Rightarrow> Inl e
      | Inr speed \<Rightarrow> count_waiting rest (if speed < 0.1 then waiting + 1 else waiting))"

fun track_waiting :: "perception \<Rightarrow> int list \<Rightarrow> int \<Rightarrow> int traci" where
  "track_waiting sim [] waiting = Inr waiting"
| "track_waiting sim (idx # rest) waiting =
     (case getLastStepVehicleIDs sim (edge idx) of
        Inl e \<Rightarrow> Inl e
      | Inr ids \<Rightarrow>
          (case count_waiting ids waiting of
             Inl e \<Rightarrow> Inl e
           | Inr waiting2 \<Rightarrow> track_waiting sim rest waiting2))"

text \<open>The scan \<^verbatim>\<open># Find winner\<close>: the pair is \<^verbatim>\<open>(winner, top_priority)\<close>.\<close>

definition find_winner :: "SimulationController \<Rightarrow> int \<Rightarrow> int \<times> real" where
  "find_winner c step =
     fold (\<lambda>i (winner, top_priority).
             let p = get_priority c i step
             in if p > top_priority then (i, p) else (winner, top_priority))
          range3 (- 1, - 1)"

definition others_red :: "int \<Rightarrow> SimulationController \<Rightarrow> SimulationController" where
  "others_red winner c =
     fold (\<lambda>i c. if i \<noteq> winner then set_traffic_light i CHR ''r'' c else c) range3 c"

definition reset_others :: "int \<Rightarrow> SimulationController \<Rightarrow> SimulationController" where
  "reset_others winner c =
     fold (\<lambda>i c. if i \<noteq> winner
                  then c\<lparr>intersections := (intersections c)
                         (i := (intersections c i)\<lparr>consecutive_greens := 0\<rparr>)\<rparr>
                  else c) range3 c"

definition give_green :: "config \<Rightarrow> int \<Rightarrow> int \<Rightarrow> SimulationController \<Rightarrow> SimulationController" where
  "give_green cfg winner step c =
     (let c = c\<lparr>active_idx := winner\<rparr>;
          c = c\<lparr>intersections := (intersections c)
                 (winner := (intersections c winner)\<lparr>state_start := step\<rparr>)\<rparr>;
          c = c\<lparr>intersections := (intersections c)
                 (winner := (intersections c winner)
                    \<lparr>consecutive_greens := consecutive_greens (intersections c winner) + 1\<rparr>)\<rparr>;
          c = reset_others winner c;
          priority = get_priority c winner step;
          green_time = G_MIN cfg + priority * 7.5;
          green_time = min (max green_time (G_MIN cfg)) (G_MAX cfg);
          c = c\<lparr>intersections := (intersections c)
                 (winner := (intersections c winner)\<lparr>planned_duration := round1 green_time\<rparr>)\<rparr>
      in set_traffic_light winner CHR ''G'' c)"

text \<open>The part of \<^verbatim>\<open>run_step\<close> under \<^verbatim>\<open># Traffic light control\<close>.\<close>

definition light_control :: "config \<Rightarrow> int \<Rightarrow> SimulationController \<Rightarrow> SimulationController" where
  "light_control cfg step c =
     (if is_all_red c then
        (if real_of_int (step - all_red_start c) \<ge> ALL_RED_TIME cfg then
           (let c = c\<lparr>is_all_red := False\<rparr>;
                winner = fst (find_winner c step);
                c = others_red winner c
            in if winner \<noteq> - 1 then give_green cfg winner step c else c)
         else c)
      else if active_idx c \<noteq> - 1 then
        (let intr = intersections c (active_idx c);
             elapsed = step - state_start intr
         in if current_light intr = ''G'' then
              (if real_of_int elapsed \<ge> planned_duration intr then
                 (let c = set_traffic_light (active_idx c) CHR ''y'' c
                  in c\<lparr>intersections := (intersections c)
                        (active_idx c := (intersections c (active_idx c))\<lparr>state_start := step\<rparr>)\<rparr>)
               else c)
            else if current_light intr = ''Y'' then
              (if real_of_int elapsed \<ge> YELLOW_TIME cfg then
                 (let c = set_traffic_light (active_idx c) CHR ''r'' c;
                      c = c\<lparr>intersections := (intersections c)
                            (active_idx c := (intersections c (active_idx c))\<lparr>last_green_end := step\<rparr>)\<rparr>
                  in c\<lparr>active_idx := - 1, is_all_red := True, all_red_start := step,
                       cycle_count := cycle_count c + 1\<rparr>)
               else c)
            else c)
      else c\<lparr>is_all_red := True, all_red_start := step\<rparr>)"

definition run_step :: "config \<Rightarrow> int \<Rightarrow> perception \<Rightarrow> SimulationController \<Rightarrow> SimulationController traci" where
  "run_step cfg step sim c =
     (let c = update_sensors cfg step sim c
      in case track_waiting sim range3 (total_waiting_time c) of
           Inl e \<Rightarrow> Inl e
         | Inr waiting \<Rightarrow>
             (let c = c\<lparr>total_waiting_time := waiting\<rparr>
              in case getArrivedIDList sim of
                   Inl e \<Rightarrow> Inl e
                 | Inr arrived \<Rightarrow>
                     Inr (light_control cfg step
                            (c\<lparr>vehicles_processed := vehicles_processed c + int (length arrived)\<rparr>))))"

text \<open>The states the controller can be in after any number of ticks that returned.\<close>

inductive reachable :: "config \<Rightarrow> SimulationController \<Rightarrow> bool" where
  start: "reachable cfg (SimulationController_init program)"
| tick: "reachable cfg c \<Longrightarrow> run_step cfg step sim c = Inr c' \<Longrightarrow> reachable cfg c'"

section \<open>The queue-length controller\<close>

text \<open>
  The lists \<^verbatim>\<open>cycle_data\<close> and \<^verbatim>\<open>sensor_data\<close> and the field
  \<^verbatim>\<open>start_time\<close> are written for the report and never read by the controller;
  they are left out, with the \<^verbatim>\<open>print\<close> calls.
\<close>

record IntersectionState_q =
  id_idx_q :: int
  current_light_q :: string
  last_green_end_q :: int
  state_start_q :: int
  planned_duration_q :: real
  vehicles_near :: int
  vehicles_medium :: int
  vehicles_far :: int
  total_queue_length :: int
  consecutive_greens_q :: int

definition IntersectionState_init_q :: "int \<Rightarrow> IntersectionState_q" where
  "IntersectionState_init_q idx =
     \<lparr> id_idx_q = idx, current_light_q = ''RED'', last_green_end_q = 0, state_start_q = 0,
       planned_duration_q = 0, vehicles_near = 0, vehicles_medium = 0, vehicles_far = 0,
       total_queue_length = 0, consecutive_greens_q = 0 \<rparr>"

record SimulationController_q =
  intersections_q :: "int \<Rightarrow> IntersectionState_q"
  active_idx_q :: int
  is_all_red_q :: bool
  all_red_start_q :: int
  cycle_count_q :: int
  total_waiting_time_q :: int
  vehicles_processed_q :: int
  tl_state_q :: string

definition SimulationController_init_q :: "string \<Rightarrow> SimulationController_q" where
  "SimulationController_init_q program =
     \<lparr> intersections_q = IntersectionState_init_q, active_idx_q = - 1, is_all_red_q = True,
       all_red_start_q = 0, cycle_count_q = 0, total_waiting_time_q = 0,
       vehicles_processed_q = 0, tl_state_q = program \<rparr>"

subsection \<open>Sensing\<close>

text \<open>
  The body of the inner \<^verbatim>\<open>try\<close> for one vehicle; the triple is
  \<^verbatim>\<open>(near_count, medium_count, far_count)\<close>.
\<close>

definition count_vehicle :: "config_q \<Rightarrow> vehicle \<Rightarrow> int \<times> int \<times> int \<Rightarrow> int \<times> int \<times> int" where
  "count_vehicle cfg veh_id counts =
     (case getLanePosition veh_id of Inl _ \<Rightarrow> counts | Inr pos \<Rightarrow>
      case getLaneLength veh_id of Inl _ \<Rightarrow> counts | Inr lane_length \<Rightarrow>
      case getSpeed veh_id of Inl _ \<Rightarrow> counts | Inr speed \<Rightarrow>
        (let dist_to_intersection = lane_length - pos;
             (near_count, medium_count, far_count) = counts
         in if speed < 2 then
              (if dist_to_intersection \<le> ZONE_NEAR cfg then (near_count + 1, medium_count, far_count)
               else if dist_to_intersection \<le> ZONE_MEDIUM cfg then (near_count, medium_count + 1, far_count)
               else if dist_to_intersection \<le> ZONE_FAR cfg then (near_count, medium_count, far_count + 1)
               else counts)
            else counts))"

text \<open>One round of the loop of \<^verbatim>\<open>measure_queue_length\<close>, for the approach \<open>idx\<close>.\<close>

definition measure_queue :: "config_q \<Rightarrow> int \<Rightarrow> perception \<Rightarrow> int \<Rightarrow> SimulationController_q \<Rightarrow> SimulationController_q" where
  "measure_queue cfg step sim idx c =
     (let vehicle_ids = (case getLastStepVehicleIDs sim (edge idx) of
                           Inl _ \<Rightarrow> [] | Inr ids \<Rightarrow> ids);
          (near_count, medium_count, far_count) = fold (count_vehicle cfg) vehicle_ids (0, 0, 0);
          intr = intersections_q c idx;
          intr = intr\<lparr>vehicles_near := near_count\<rparr>;
          intr = intr\<lparr>vehicles_medium := medium_count\<rparr>;
          intr = intr\<lparr>vehicles_far := far_count\<rparr>;
          intr = intr\<lparr>total_queue_length := near_count + medium_count + far_count\<rparr>
      in c\<lparr>intersections_q := (intersections_q c)(idx := intr)\<rparr>)"

definition measure_queue_length :: "config_q \<Rightarrow> int \<Rightarrow> perception \<Rightarrow> SimulationController_q \<Rightarrow> SimulationController_q" where
  "measure_queue_length cfg step sim c = fold (measure_queue cfg step sim) range3 c"

subsection \<open>Priority, green time and light commands\<close>

definition get_priority_q :: "config_q \<Rightarrow> SimulationController_q \<Rightarrow> int \<Rightarrow> int \<Rightarrow> real" where
  "get_priority_q cfg c idx step =
     (let intr = intersections_q c idx;
          queue_priority = real_of_int (vehicles_near intr) * WEIGHT_NEAR cfg
                         + real_of_int (vehicles_medium intr) * WEIGHT_MEDIUM cfg
                         + real_of_int (vehicles_far intr) * WEIGHT_FAR cfg;
          wait_bonus = min (real_of_int (step - last_green_end_q intr) / 60) 2;
          monopoly_penalty = real_of_int (consecutive_greens_q intr) * 17;
          total_priority = queue_priority + wait_bonus - monopoly_penalty;
          total_priority = max total_priority 0.1
      in total_priority)"

definition set_traffic_light_q :: "int \<Rightarrow> char \<Rightarrow> SimulationController_q \<Rightarrow> SimulationController_q" where
  "set_traffic_light_q idx state c =
     c\<lparr> tl_state_q := write_links (tl_links idx) state (tl_state_q c),
        intersections_q := (intersections_q c)
          (idx := (intersections_q c idx)\<lparr>current_light_q := [upper_char state]\<rparr>) \<rparr>"

definition calculate_green_time :: "config_q \<Rightarrow> real \<Rightarrow> real" where
  "calculate_green_time cfg priority =
     (let green_time = G_MIN_q cfg + priority * 1.5;
          green_time = min (max green_time (G_MIN_q cfg)) (G_MAX_q cfg)
      in round1 green_time)"

subsection \<open>One tick\<close>

definition find_winner_q :: "config_q \<Rightarrow> SimulationController_q \<Rightarrow> int \<Rightarrow> int \<times> real" where
  "find_winner_q cfg c step =
     fold (\<lambda>i (winner, top_priority).
             let p = get_priority_q cfg c i step
             in if p > top_priority then (i, p) else (winner, top_priority))
          range3 (- 1, - 1)"

definition others_red_q :: "int \<Rightarrow> SimulationController_q \<Rightarrow> SimulationController_q" where
  "others_red_q winner c =
     fold (\<lambda>i c. if i \<noteq> winner then set_traffic_light_q i CHR ''r'' c else c) range3 c"

definition reset_others_q :: "int \<Rightarrow> SimulationController_q \<Rightarrow> SimulationController_q" where
  "reset_others_q winner c =
     fold (\<lambda>i c. if i \<noteq> winner
                  then c\<lparr>intersections_q := (intersections_q c)
                         (i := (intersections_q c i)\<lparr>consecutive_greens_q := 0\<rparr>)\<rparr>
                  else c) range3 c"

definition give_green_q :: "config_q \<Rightarrow> int \<Rightarrow> int \<Rightarrow> SimulationController_q \<Rightarrow> SimulationController_q" where
  "give_green_q cfg winner step c =
     (let c = c\<lparr>active_idx_q := winner\<rparr>;
          c = c\<lparr>intersections_q := (intersections_q c)
                 (winner := (intersections_q c winner)\<lparr>state_start_q := step\<rparr>)\<rparr>;
          c = c\<lparr>intersections_q := (intersections_q c)
                 (winner := (intersections_q c winner)
                    \<lparr>consecutive_greens_q := consecutive_greens_q (intersections_q c winner) + 1\<rparr>)\<rparr>;
          c = reset_others_q winner c;
          c = c\<lparr>intersections_q := (intersections_q c)
                 (winner := (intersections_q c winner)
                    \<lparr>planned_duration_q := calculate_green_time cfg (get_priority_q cfg c winner step)\<rparr>)\<rparr>
      in set_traffic_light_q winner CHR ''G'' c)"

definition light_control_q :: "config_q \<Rightarrow> int \<Rightarrow> SimulationController_q \<Rightarrow> SimulationController_q" where
  "light_control_q cfg step c =
     (if is_all_red_q c then
        (if real_of_int (step - all_red_start_q c) \<ge> ALL_RED_TIME_q cfg then
           (let c = c\<lparr>is_all_red_q := False\<rparr>;
                winner = fst (find_winner_q cfg c step);
                c = others_red_q winner c
            in if winner \<noteq> - 1 then give_green_q cfg winner step c else c)
         else c)
      else if active_idx_q c \<noteq> - 1 then
        (let intr = intersections_q c (active_idx_q c);
             elapsed = step - state_start_q intr
         in if current_light_q intr = ''G'' then
              (if real_of_int elapsed \<ge> planned_duration_q intr then
                 (let c = set_traffic_light_q (active_idx_q c) CHR ''y'' c
                  in c\<lparr>intersections_q := (intersections_q c)
                        (active_idx_q c := (intersections_q c (active_idx_q c))\<lparr>state_start_q := step\<rparr>)\<rparr>)
               else c)
            else if current_light_q intr = ''Y'' then
              (if real_of_int elapsed \<ge> YELLOW_TIME_q cfg then
                 (let c = set_traffic_light_q (active_idx_q c) CHR ''r'' c;
                      c = c\<lparr>intersections_q := (intersections_q c)
                            (active_idx_q c := (intersections_q c (active_idx_q c))\<lparr>last_green_end_q := step\<rparr>)\<rparr>
                  in c\<lparr>active_idx_q := - 1, is_all_red_q := True, all_red_start_q := step,
                       cycle_count_q := cycle_count_q c + 1\<rparr>)
               else c)
            else c)
      else c\<lparr>is_all_red_q := True, all_red_start_q := step\<rparr>)"

definition run_step_q :: "config_q \<Rightarrow> int \<Rightarrow> perception \<Rightarrow> SimulationController_q \<Rightarrow> SimulationController_q traci" where
  "run_step_q cfg step sim c =
     (let c = measure_queue_length cfg step sim c
      in case track_waiting sim range3 (total_waiting_time_q c) of
           Inl e \<Rightarrow> Inl e
         | Inr waiting \<Rightarrow>
             (let c = c\<lparr>total_waiting_time_q := waiting\<rparr>
              in case getArrivedIDList sim of
                   Inl e \<Rightarrow> Inl e
                 | Inr arrived \<Rightarrow>
                     Inr (light_control_q cfg step
                            (c\<lparr>vehicles_processed_q := vehicles_processed_q c + int (length arrived)\<rparr>))))"

inductive reachable_q :: "config_q \<Rightarrow> SimulationController_q \<Rightarrow> bool" where
  start_q: "reachable_q cfg (SimulationController_init_q program)"
| tick_q: "reachable_q cfg c \<Longrightarrow> run_step_q cfg step sim c = Inr c' \<Longrightarrow> reachable_q cfg c'"

section \<open>Vocabulary of the statements\<close>

text \<open>
  A signal is red when the field holds the initial \<^verbatim>\<open>'RED'\<close> or the \<^verbatim>\<open>'R'\<close> that
  \<^verbatim>\<open>set_traffic_light(idx, 'r')\<close> stores; it is lit when it holds \<^verbatim>\<open>'G'\<close> or
  \<^verbatim>\<open>'Y'\<close>.
\<close>

definition is_red :: "string \<Rightarrow> bool" where
  "is_red light = (light = ''RED'' \<or> light = ''R'')"

definition is_lit :: "string \<Rightarrow> bool" where
  "is_lit light = (light = ''G'' \<or> light = ''Y'')"

text \<open>Sample inputs: a tick with no vehicle anywhere, and two controllers with a tie.\<close>

definition quiet :: perception where
  "quiet = \<lparr> getLastStepVehicleIDs = (\<lambda>_. Inr []), getArrivedIDList = Inr [] \<rparr>"

definition tied :: SimulationController where
  "tied = (SimulationController_init ''rrrrrr'')
     \<lparr> intersections := IntersectionState_init
          (1 := (IntersectionState_init 1)\<lparr>far_sensor_occupied := True\<rparr>,
           2 := (IntersectionState_init 2)\<lparr>far_sensor_occupied := True\<rparr>) \<rparr>"

definition tied_q :: SimulationController_q where
  "tied_q = (SimulationController_init_q ''rrrrrr'')
     \<lparr> intersections_q := IntersectionState_init_q
          (1 := (IntersectionState_init_q 1)\<lparr>vehicles_near := 2\<rparr>,
           2 := (IntersectionState_init_q 2)\<lparr>vehicles_medium := 3\<rparr>) \<rparr>"

text \<open>
  The two candidates \<^verbatim>\<open>(near_detected_now, far_detected_now)\<close> that one round of
  \<^verbatim>\<open>update_sensors\<close> computes for an approach, and the three counts that one round
  of \<^verbatim>\<open>measure_queue_length\<close> computes.
\<close>

definition candidates :: "config \<Rightarrow> perception \<Rightarrow> int \<Rightarrow> bool \<times> bool" where
  "candidates cfg sim idx =
     fold (detect_vehicle cfg)
       (case getLastStepVehicleIDs sim (edge idx) of Inl _ \<Rightarrow> [] | Inr ids \<Rightarrow> ids)
       (False, False)"

definition zone_counts :: "config_q \<Rightarrow> perception \<Rightarrow> int \<Rightarrow> int \<times> int \<times> int" where
  "zone_counts cfg sim idx =
     fold (count_vehicle cfg)
       (case getLastStepVehicleIDs sim (edge idx) of Inl _ \<Rightarrow> [] | Inr ids \<Rightarrow> ids)
       (0, 0, 0)"

text \<open>
  The invariant of the lights: every approach but the active one is red, all are red
  during the gap, every signal is red or lit, and the active index is \<open>- 1\<close> or an
  approach. The invariant of the green: an approach showing \<^verbatim>\<open>'G'\<close> is the active
  one, outside the gap, with a planned duration between \<^verbatim>\<open>G_MIN\<close> and \<^verbatim>\<open>G_MAX\<close>.
\<close>

definition lights_ok :: "SimulationController \<Rightarrow> bool" where
  "lights_ok c =
     ((\<forall>i\<in>{0, 1, 2}. i \<noteq> active_idx c \<longrightarrow> is_red (current_light (intersections c i)))
      \<and> (is_all_red c \<longrightarrow> (\<forall>i\<in>{0, 1, 2}. is_red (current_light (intersections c i))))
      \<and> (\<forall>i\<in>{0, 1, 2}. is_red (current_light (intersections c i))
                        \<or> is_lit (current_light (intersections c i)))
      \<and> active_idx c \<in> {- 1, 0, 1, 2})"

definition green_ok :: "config \<Rightarrow> SimulationController \<Rightarrow> bool" where
  "green_ok cfg c =
     (\<forall>i\<in>{0, 1, 2}. current_light (intersections c i) = ''G'' \<longrightarrow>
        \<not> is_all_red c \<and> active_idx c = i
        \<and> G_MIN cfg \<le> planned_duration (intersections c i)
        \<and> planned_duration (intersections c i) \<le> G_MAX cfg)"

definition lights_ok_q :: "SimulationController_q \<Rightarrow> bool" where
  "lights_ok_q c =
     ((\<forall>i\<in>{0, 1, 2}. i \<noteq> active_idx_q c \<longrightarrow> is_red (current_light_q (intersections_q c i)))
      \<and> (is_all_red_q c \<longrightarrow> (\<forall>i\<in>{0, 1, 2}. is_red (current_light_q (intersections_q c i))))
      \<and> (\<forall>i\<in>{0, 1, 2}. is_red (current_light_q (intersections_q c i))
                        \<or> is_lit (current_light_q (intersections_q c i)))
      \<and> active_idx_q c \<in> {- 1, 0, 1, 2})"

definition green_ok_q :: "config_q \<Rightarrow> SimulationController_q \<Rightarrow> bool" where
  "green_ok_q cfg c =
     (\<forall>i\<in>{0, 1, 2}. current_light_q (intersections_q c i) = ''G'' \<longrightarrow>
        \<not> is_all_red_q c \<and> active_idx_q c = i
        \<and> G_MIN_q cfg \<le> planned_duration_q (intersections_q c i)
        \<and> planned_duration_q (intersections_q c i) \<le> G_MAX_q cfg)"

text \<open>
  The loop of \<^verbatim>\<open>main\<close>: \<^verbatim>\<open>step\<close> starts at 0 and grows by one after each call
  of \<^verbatim>\<open>run_step\<close>; every round first lets the simulator advance, which gives the
  next perception of the list. An exception of \<^verbatim>\<open>run_step\<close> ends the loop. The
  bound of 3600 rounds is the length of the list.
\<close>

fun drive :: "config \<Rightarrow> perception list \<Rightarrow> int \<Rightarrow> SimulationController \<Rightarrow> SimulationController traci" where
  "drive cfg [] step c = Inr c"
| "drive cfg (sim # sims) step c =
     (case run_step cfg step sim c of Inl e \<Rightarrow> Inl e | Inr c' \<Rightarrow> drive cfg sims (step + 1) c')"

fun drive_q :: "config_q \<Rightarrow> perception list \<Rightarrow> int \<Rightarrow> SimulationController_q \<Rightarrow> SimulationController_q traci" where
  "drive_q cfg [] step c = Inr c"
| "drive_q cfg (sim # sims) step c =
     (case run_step_q cfg step sim c of Inl e \<Rightarrow> Inl e | Inr c' \<Rightarrow> drive_q cfg sims (step + 1) c')"

text \<open>
  A vehicle whose queries all answer, by its distance to the stop line on a lane of
  200 m and its speed; a perception with the given vehicles on the edge of the
  approach 0 and none elsewhere.
\<close>

definition car :: "real \<Rightarrow> real \<Rightarrow> vehicle" where
  "car d v = \<lparr> getLanePosition = Inr (200 - d), getLaneLength = Inr 200, getSpeed = Inr v \<rparr>"

definition on_r1 :: "vehicle list \<Rightarrow> perception" where
  "on_r1 ids = \<lparr> getLastStepVehicleIDs = (\<lambda>e. if e = ''r1_in'' then Inr ids else Inr []),
                 getArrivedIDList = Inr [] \<rparr>"

text \<open>
  The state after the ticks 0 and 1 with no vehicle anywhere: the gap has ended and the
  approach 0 has the first green.
\<close>

definition first_green :: SimulationController where
  "first_green = projr (drive module_config [quiet, quiet] 0 (SimulationController_init ''rrrrrr''))"

definition first_green_q :: SimulationController_q where
  "first_green_q =
     projr (drive_q module_config_q [quiet, quiet] 0 (SimulationController_init_q ''rrrrrr''))"

text \<open>
  The invariant of the two debounce timers of an approach before the tick \<open>n\<close> of the
  loop of \<^verbatim>\<open>main\<close>: a running near timer started no earlier than the far timer,
  which is running too; a running timer started before \<open>n\<close>; a near flag comes with
  a far flag.
\<close>

definition detection_ok :: "int \<Rightarrow> IntersectionState \<Rightarrow> bool" where
  "detection_ok n s =
     ((near_detect_time s \<noteq> 0 \<longrightarrow> far_detect_time s \<noteq> 0 \<and> far_detect_time s \<le> near_detect_time s)
      \<and> (near_detect_time s \<noteq> 0 \<longrightarrow> near_detect_time s < n)
      \<and> (far_detect_time s \<noteq> 0 \<longrightarrow> far_detect_time s < n)
      \<and> (near_sensor_occupied s \<longrightarrow> far_sensor_occupied s))"

text \<open>
  A car stopped 5 m from the stop line of the approach 0, seen on ten and on eleven
  ticks in a row from the tick 1 on, then gone on the next tick.
\<close>

definition ten_ticks :: SimulationController where
  "ten_ticks = projr (drive module_config (replicate 10 (on_r1 [car 5 0])) 1
                       (SimulationController_init ''rrrrrr''))"

definition eleven_ticks :: SimulationController where
  "eleven_ticks = projr (drive module_config (replicate 11 (on_r1 [car 5 0])) 1
                          (SimulationController_init ''rrrrrr''))"

definition gone :: SimulationController where
  "gone = projr (run_step module_config 12 quiet eleven_ticks)"

text \<open>
  The loop of \<^verbatim>\<open>main\<close> from the tick 0: no vehicle on the tick 0, a car stopped 30 m
  from the stop line of the approach 0 on the ticks 1 to 4, then a car stopped 5 m
  from it on the ticks 5 to 15.
\<close>

definition approaching :: "perception list" where
  "approaching = quiet # replicate 4 (on_r1 [car 30 0]) @ replicate 11 (on_r1 [car 5 0])"

definition car_arrived :: SimulationController where
  "car_arrived = projr (drive module_config approaching 0 (SimulationController_init ''rrrrrr''))"

text \<open>
  The vehicles that sensing sees on the edge of an approach (none when the query of the
  edge fails), and what the perception inlet reports for a vehicle when its queries all
  answer: its distance to the stop line and its speed.
\<close>

definition vehicles_on :: "perception \<Rightarrow> int \<Rightarrow> vehicle list" where
  "vehicles_on sim idx =
     (case getLastStepVehicleIDs sim (edge idx) of Inl _ \<Rightarrow> [] | Inr ids \<Rightarrow> ids)"

definition reading :: "vehicle \<Rightarrow> (real \<times> real) option" where
  "reading v =
     (case getLanePosition v of Inl _ \<Rightarrow> None | Inr pos \<Rightarrow>
      case getLaneLength v of Inl _ \<Rightarrow> None | Inr lane_length \<Rightarrow>
      case getSpeed v of Inl _ \<Rightarrow> None | Inr speed \<Rightarrow> Some (lane_length - pos, speed))"

text \<open>
  The zones in the words of the specification: a vehicle is queued up to a distance, or
  between two distances, when it reports a speed below 2.0 m/s and a distance in that
  range (the lower end excluded, the upper end included).
\<close>

definition queued_upto :: "real \<Rightarrow> vehicle \<Rightarrow> bool" where
  "queued_upto hi v = (case reading v of None \<Rightarrow> False | Some (d, speed) \<Rightarrow> speed < 2 \<and> d \<le> hi)"

definition queued_between :: "real \<Rightarrow> real \<Rightarrow> vehicle \<Rightarrow> bool" where
  "queued_between lo hi v =
     (case reading v of None \<Rightarrow> False | Some (d, speed) \<Rightarrow> speed < 2 \<and> lo < d \<and> d \<le> hi)"

text \<open>
  More sample inputs: a vehicle whose speed query fails; a tick on which the query of
  the edge of the approach 0 fails while a car is stopped 5 m from the stop line of
  each other approach; a mixed queue on the approach 0.
\<close>

definition broken :: vehicle where
  "broken = \<lparr> getLanePosition = Inr 195, getLaneLength = Inr 200, getSpeed = Inl TraCIException \<rparr>"

definition r1_down :: perception where
  "r1_down = \<lparr> getLastStepVehicleIDs =
                  (\<lambda>e. if e = ''r1_in'' then Inl TraCIException else Inr [car 5 0]),
               getArrivedIDList = Inr [] \<rparr>"

definition mixed_queue :: "vehicle list" where
  "mixed_queue = [car 5 0, car 30 1, car 80 0, car 150 0, car 10 5, broken, car 25 0]"

text \<open>
  The file with \<^verbatim>\<open>G_MIN = 50.0\<close>, above \<^verbatim>\<open>G_MAX\<close>, and the state it reaches after
  the ticks 0 and 1 with no vehicle anywhere.
\<close>

definition inverted :: config where
  "inverted = module_config\<lparr>G_MIN := 50\<rparr>"

definition inverted_green :: SimulationController where
  "inverted_green = projr (drive inverted [quiet, quiet] 0 (SimulationController_init ''rrrrrr''))"

section \<open>Properties\<close>

subsection \<open>Priority scores\<close>

lemma get_priority_floor: "1 / 10 \<le> get_priority c idx step"
  by (simp add: get_priority_def Let_def)

lemma get_priority_q_floor: "1 / 10 \<le> get_priority_q cfg c idx step"
  by (simp add: get_priority_q_def Let_def)

text \<open>
  C2. In both files the priority of any approach at any tick is at least 0.1, whatever
  the detection fields, the tick of the last green and the count of consecutive greens
  are (and, in the queue file, whatever the zone weights are).
\<close>

theorem C2_score_floor:
  "1 / 10 \<le> get_priority c idx step \<and> 1 / 10 \<le> get_priority_q cfg_q c_q idx step"
  using get_priority_floor [of c idx step] get_priority_q_floor [of cfg_q c_q idx step]
  by (rule conjI)

lemma wait_bonus_mono:
  fixes t1 t2 l :: int and d cap :: real
  assumes "t1 \<le> t2" "0 < d"
  shows "min (real_of_int (t1 - l) / d) cap \<le> min (real_of_int (t2 - l) / d) cap"
proof -
  have "real_of_int (t1 - l) / d \<le> real_of_int (t2 - l) / d"
    using assms by (intro divide_right_mono) simp_all
  then show ?thesis by (simp add: min_le_iff_disj)
qed

lemma get_priority_mono:
  assumes "t1 \<le> t2"
  shows "get_priority c idx t1 \<le> get_priority c idx t2"
proof -
  note w = wait_bonus_mono [OF assms, of 120 "last_green_end (intersections c idx)" 1]
  show ?thesis
    unfolding get_priority_def Let_def
    by (rule max.mono) (use w in \<open>auto\<close>)
qed

lemma get_priority_q_mono:
  assumes "t1 \<le> t2"
  shows "get_priority_q cfg c idx t1 \<le> get_priority_q cfg c idx t2"
proof -
  note w = wait_bonus_mono [OF assms, of 60 "last_green_end_q (intersections_q c idx)" 2]
  show ?thesis
    unfolding get_priority_q_def Let_def
    by (rule max.mono) (use w in \<open>auto\<close>)
qed

text \<open>The score reads four fields of the approach (five in the queue file) and nothing else.\<close>

lemma get_priority_fields:
  assumes "near_sensor_occupied (intersections c' idx) = near_sensor_occupied (intersections c idx)"
    and "far_sensor_occupied (intersections c' idx) = far_sensor_occupied (intersections c idx)"
    and "last_green_end (intersections c' idx) = last_green_end (intersections c idx)"
    and "consecutive_greens (intersections c' idx) = consecutive_greens (intersections c idx)"
  shows "get_priority c' idx step = get_priority c idx step"
  using assms by (simp add: get_priority_def Let_def)

lemma get_priority_q_fields:
  assumes "vehicles_near (intersections_q c' idx) = vehicles_near (intersections_q c idx)"
    and "vehicles_medium (intersections_q c' idx) = vehicles_medium (intersections_q c idx)"
    and "vehicles_far (intersections_q c' idx) = vehicles_far (intersections_q c idx)"
    and "last_green_end_q (intersections_q c' idx) = last_green_end_q (intersections_q c idx)"
    and "consecutive_greens_q (intersections_q c' idx) = consecutive_greens_q (intersections_q c idx)"
  shows "get_priority_q cfg c' idx step = get_priority_q cfg c idx step"
  using assms by (simp add: get_priority_q_def Let_def)

text \<open>
  C7. Starvation monotonicity. Take an approach at two ticks \<open>t1 < t2\<close>, in two states
  of the controller that agree on its detection fields, on its count of consecutive
  greens and on the tick its last green ended. Then its score at \<open>t2\<close> is at least its
  score at \<open>t1\<close>, in both files.
\<close>

theorem C7_starvation_monotone:
  assumes "t1 < t2"
    and "near_sensor_occupied (intersections c2 idx) = near_sensor_occupied (intersections c1 idx)"
    and "far_sensor_occupied (intersections c2 idx) = far_sensor_occupied (intersections c1 idx)"
    and "last_green_end (intersections c2 idx) = last_green_end (intersections c1 idx)"
    and "consecutive_greens (intersections c2 idx) = consecutive_greens (intersections c1 idx)"
    and "vehicles_near (intersections_q q2 idx) = vehicles_near (intersections_q q1 idx)"
    and "vehicles_medium (intersections_q q2 idx) = vehicles_medium (intersections_q q1 idx)"
    and "vehicles_far (intersections_q q2 idx) = vehicles_far (intersections_q q1 idx)"
    and "last_green_end_q (intersections_q q2 idx) = last_green_end_q (intersections_q q1 idx)"
    and "consecutive_greens_q (intersections_q q2 idx) = consecutive_greens_q (intersections_q q1 idx)"
  shows "get_priority c1 idx t1 \<le> get_priority c2 idx t2
       \<and> get_priority_q cfg q1 idx t1 \<le> get_priority_q cfg q2 idx t2"
proof -
  have le: "t1 \<le> t2" using assms(1) by simp
  have "get_priority c2 idx t2 = get_priority c1 idx t2"
    using assms(2-5) by (rule get_priority_fields)
  moreover have "get_priority_q cfg q2 idx t2 = get_priority_q cfg q1 idx t2"
    using assms(6-10) by (rule get_priority_q_fields)
  ultimately show ?thesis
    using get_priority_mono [OF le, of c1 idx] get_priority_q_mono [OF le, of cfg q1 idx]
    by simp
qed

text \<open>
  At ticks 30 and 90 an approach that never had a green scores 0.25 and 0.75 in the
  binary file, 0.5 and 1.5 in the queue file.
\<close>

theorem C7_starvation_monotone_witness:
  "get_priority (SimulationController_init ''rrrrrr'') 0 30 = 1 / 4
   \<and> get_priority (SimulationController_init ''rrrrrr'') 0 90 = 3 / 4
   \<and> get_priority_q module_config_q (SimulationController_init_q ''rrrrrr'') 0 30 = 1 / 2
   \<and> get_priority_q module_config_q (SimulationController_init_q ''rrrrrr'') 0 90 = 3 / 2
   \<and> get_priority (SimulationController_init ''rrrrrr'') 0 30
       \<le> get_priority (SimulationController_init ''rrrrrr'') 0 90
   \<and> get_priority_q module_config_q (SimulationController_init_q ''rrrrrr'') 0 30
       \<le> get_priority_q module_config_q (SimulationController_init_q ''rrrrrr'') 0 90"
  using C7_starvation_monotone [of 30 90
      "SimulationController_init ''rrrrrr''" 0 "SimulationController_init ''rrrrrr''"
      "SimulationController_init_q ''rrrrrr''" "SimulationController_init_q ''rrrrrr''"
      module_config_q]
  by (simp add: get_priority_def get_priority_q_def SimulationController_init_def
      SimulationController_init_q_def IntersectionState_init_def IntersectionState_init_q_def
      module_config_q_def)

subsection \<open>Winner selection\<close>

text \<open>
  The scan of the three approaches with a strict comparison, over any scores of which
  the first is above the initial best \<open>- 1\<close>.
\<close>

lemma scan3:
  fixes f :: "int \<Rightarrow> real"
  assumes "f 0 > - 1"
  defines "r \<equiv> fold (\<lambda>i (winner, top_priority).
             let p = f i
             in if p > top_priority then (i, p) else (winner, top_priority))
          range3 (- 1, - 1)"
  shows "fst r \<in> {0, 1, 2}" and "snd r = f (fst r)"
    and "f 0 \<le> snd r" and "f 1 \<le> snd r" and "f 2 \<le> snd r"
    and "0 < fst r \<Longrightarrow> f 0 < snd r"
    and "1 < fst r \<Longrightarrow> f 1 < snd r"
  using assms(1) unfolding r_def range3_def
  by (auto simp: Let_def split: if_splits)

lemma find_winner_props:
  "fst (find_winner c step) \<in> {0, 1, 2}"
  "snd (find_winner c step) = get_priority c (fst (find_winner c step)) step"
  "i \<in> {0, 1, 2} \<Longrightarrow> get_priority c i step \<le> snd (find_winner c step)"
  "i \<in> {0, 1, 2} \<Longrightarrow> i < fst (find_winner c step) \<Longrightarrow> get_priority c i step < snd (find_winner c step)"
proof -
  have pos: "get_priority c 0 step > - 1"
    using get_priority_floor [of c 0 step] by linarith
  note s = scan3 [of "\<lambda>i. get_priority c i step", OF pos, folded find_winner_def]
  show "fst (find_winner c step) \<in> {0, 1, 2}" by (rule s(1))
  show "snd (find_winner c step) = get_priority c (fst (find_winner c step)) step" by (rule s(2))
  show "i \<in> {0, 1, 2} \<Longrightarrow> get_priority c i step \<le> snd (find_winner c step)"
    using s(3-5) by auto
  show "i \<in> {0, 1, 2} \<Longrightarrow> i < fst (find_winner c step) \<Longrightarrow> get_priority c i step < snd (find_winner c step)"
    using s(1,6,7) by auto
qed

lemma find_winner_q_props:
  "fst (find_winner_q cfg c step) \<in> {0, 1, 2}"
  "snd (find_winner_q cfg c step) = get_priority_q cfg c (fst (find_winner_q cfg c step)) step"
  "i \<in> {0, 1, 2} \<Longrightarrow> get_priority_q cfg c i step \<le> snd (find_winner_q cfg c step)"
  "i \<in> {0, 1, 2} \<Longrightarrow> i < fst (find_winner_q cfg c step)
     \<Longrightarrow> get_priority_q cfg c i step < snd (find_winner_q cfg c step)"
proof -
  have pos: "get_priority_q cfg c 0 step > - 1"
    using get_priority_q_floor [of cfg c 0 step] by linarith
  note s = scan3 [of "\<lambda>i. get_priority_q cfg c i step", OF pos, folded find_winner_q_def]
  show "fst (find_winner_q cfg c step) \<in> {0, 1, 2}" by (rule s(1))
  show "snd (find_winner_q cfg c step) = get_priority_q cfg c (fst (find_winner_q cfg c step)) step"
    by (rule s(2))
  show "i \<in> {0, 1, 2} \<Longrightarrow> get_priority_q cfg c i step \<le> snd (find_winner_q cfg c step)"
    using s(3-5) by auto
  show "i \<in> {0, 1, 2} \<Longrightarrow> i < fst (find_winner_q cfg c step)
     \<Longrightarrow> get_priority_q cfg c i step < snd (find_winner_q cfg c step)"
    using s(1,6,7) by auto
qed

text \<open>
  C5. In both files the scan always ends with a winner among the approaches 0, 1, 2
  (never the initial \<open>- 1\<close>); the best priority it holds is the winner's score, no
  approach scores higher, and every approach of lower index scores strictly lower: among
  the approaches that tie at the maximum the one of lowest index wins.
\<close>

theorem C5_winner_total:
  "fst (find_winner c step) \<in> {0, 1, 2} \<and> fst (find_winner c step) \<noteq> - 1
   \<and> snd (find_winner c step) = get_priority c (fst (find_winner c step)) step
   \<and> (\<forall>i\<in>{0, 1, 2}. get_priority c i step \<le> snd (find_winner c step))
   \<and> (\<forall>i\<in>{0, 1, 2}. i < fst (find_winner c step)
         \<longrightarrow> get_priority c i step < snd (find_winner c step))
   \<and> fst (find_winner_q cfg q step) \<in> {0, 1, 2} \<and> fst (find_winner_q cfg q step) \<noteq> - 1
   \<and> snd (find_winner_q cfg q step) = get_priority_q cfg q (fst (find_winner_q cfg q step)) step
   \<and> (\<forall>i\<in>{0, 1, 2}. get_priority_q cfg q i step \<le> snd (find_winner_q cfg q step))
   \<and> (\<forall>i\<in>{0, 1, 2}. i < fst (find_winner_q cfg q step)
         \<longrightarrow> get_priority_q cfg q i step < snd (find_winner_q cfg q step))"
proof -
  have b1: "fst (find_winner c step) \<in> {0, 1, 2}" by (rule find_winner_props(1))
  have b2: "fst (find_winner c step) \<noteq> - 1" using b1 by auto
  have b3: "snd (find_winner c step) = get_priority c (fst (find_winner c step)) step"
    by (rule find_winner_props(2))
  have b4: "\<forall>i\<in>{0, 1, 2}. get_priority c i step \<le> snd (find_winner c step)"
    by (intro ballI find_winner_props(3))
  have b5: "\<forall>i\<in>{0, 1, 2}. i < fst (find_winner c step)
         \<longrightarrow> get_priority c i step < snd (find_winner c step)"
    by (intro ballI impI find_winner_props(4))
  have q1: "fst (find_winner_q cfg q step) \<in> {0, 1, 2}" by (rule find_winner_q_props(1))
  have q2: "fst (find_winner_q cfg q step) \<noteq> - 1" using q1 by auto
  have q3: "snd (find_winner_q cfg q step)
      = get_priority_q cfg q (fst (find_winner_q cfg q step)) step"
    by (rule find_winner_q_props(2))
  have q4: "\<forall>i\<in>{0, 1, 2}. get_priority_q cfg q i step \<le> snd (find_winner_q cfg q step)"
    by (intro ballI find_winner_q_props(3))
  have q5: "\<forall>i\<in>{0, 1, 2}. i < fst (find_winner_q cfg q step)
         \<longrightarrow> get_priority_q cfg q i step < snd (find_winner_q cfg q step)"
    by (intro ballI impI find_winner_q_props(4))
  from b1 b2 b3 b4 b5 q1 q2 q3 q4 q5 show ?thesis by blast
qed

text \<open>
  In \<open>tied\<close> the approaches 1 and 2 tie above the approach 0, and so they do in
  \<open>tied_q\<close>: the approach 1 wins both times.
\<close>

theorem C5_winner_total_witness:
  "fst (find_winner tied 5) = 1
   \<and> get_priority tied 1 5 = get_priority tied 2 5
   \<and> get_priority tied 0 5 < get_priority tied 1 5
   \<and> fst (find_winner_q module_config_q tied_q 5) = 1
   \<and> get_priority_q module_config_q tied_q 1 5 = get_priority_q module_config_q tied_q 2 5
   \<and> get_priority_q module_config_q tied_q 0 5 < get_priority_q module_config_q tied_q 1 5"
  using C5_winner_total [of tied 5 module_config_q tied_q]
  by (simp add: find_winner_def find_winner_q_def range3_def get_priority_def
      get_priority_q_def tied_def tied_q_def SimulationController_init_def
      SimulationController_init_q_def IntersectionState_init_def IntersectionState_init_q_def
      module_config_q_def Let_def)

subsection \<open>What each helper of the binary file changes\<close>

lemma upper_char_r: "upper_char CHR ''r'' = CHR ''R''" by code_simp
lemma upper_char_G: "upper_char CHR ''G'' = CHR ''G''" by code_simp
lemma upper_char_y: "upper_char CHR ''y'' = CHR ''Y''" by code_simp

lemma near_persistence_frame:
  "current_light (near_persistence cfg step b s) = current_light s"
  "planned_duration (near_persistence cfg step b s) = planned_duration s"
  "last_green_end (near_persistence cfg step b s) = last_green_end s"
  "state_start (near_persistence cfg step b s) = state_start s"
  "consecutive_greens (near_persistence cfg step b s) = consecutive_greens s"
  "far_detect_time (near_persistence cfg step b s) = far_detect_time s"
  "far_sensor_occupied (near_persistence cfg step b s) = far_sensor_occupied s"
  by (simp_all add: near_persistence_def Let_def)

lemma far_persistence_frame:
  "current_light (far_persistence cfg step b s) = current_light s"
  "planned_duration (far_persistence cfg step b s) = planned_duration s"
  "last_green_end (far_persistence cfg step b s) = last_green_end s"
  "state_start (far_persistence cfg step b s) = state_start s"
  "consecutive_greens (far_persistence cfg step b s) = consecutive_greens s"
  "near_detect_time (far_persistence cfg step b s) = near_detect_time s"
  "near_sensor_occupied (far_persistence cfg step b s) = near_sensor_occupied s"
  by (simp_all add: far_persistence_def Let_def)

lemma update_sensor_eq:
  "update_sensor cfg step sim idx c =
     c\<lparr>intersections := (intersections c)
        (idx := far_persistence cfg step (snd (candidates cfg sim idx))
                 (near_persistence cfg step (fst (candidates cfg sim idx)) (intersections c idx)))\<rparr>"
  by (simp add: update_sensor_def candidates_def Let_def split: prod.splits)

lemma update_sensors_intersections:
  "intersections (update_sensors cfg step sim c) j =
     (if j \<in> {0, 1, 2}
      then far_persistence cfg step (snd (candidates cfg sim j))
             (near_persistence cfg step (fst (candidates cfg sim j)) (intersections c j))
      else intersections c j)"
  by (simp add: update_sensors_def range3_def update_sensor_eq)

lemma update_sensors_frame:
  "active_idx (update_sensors cfg step sim c) = active_idx c"
  "is_all_red (update_sensors cfg step sim c) = is_all_red c"
  "all_red_start (update_sensors cfg step sim c) = all_red_start c"
  "current_light (intersections (update_sensors cfg step sim c) j) = current_light (intersections c j)"
  "planned_duration (intersections (update_sensors cfg step sim c) j) = planned_duration (intersections c j)"
  "last_green_end (intersections (update_sensors cfg step sim c) j) = last_green_end (intersections c j)"
  "state_start (intersections (update_sensors cfg step sim c) j) = state_start (intersections c j)"
  "consecutive_greens (intersections (update_sensors cfg step sim c) j) = consecutive_greens (intersections c j)"
  by (simp_all add: update_sensors_intersections near_persistence_frame far_persistence_frame)
     (simp_all add: update_sensors_def range3_def update_sensor_eq)

lemma set_traffic_light_simps:
  "intersections (set_traffic_light idx ch c) j =
     (if j = idx then (intersections c idx)\<lparr>current_light := [upper_char ch]\<rparr>
      else intersections c j)"
  "active_idx (set_traffic_light idx ch c) = active_idx c"
  "is_all_red (set_traffic_light idx ch c) = is_all_red c"
  "all_red_start (set_traffic_light idx ch c) = all_red_start c"
  by (simp_all add: set_traffic_light_def)

lemma others_red_simps:
  "intersections (others_red w c) j =
     (if j \<in> {0, 1, 2} \<and> j \<noteq> w then (intersections c j)\<lparr>current_light := ''R''\<rparr>
      else intersections c j)"
  "active_idx (others_red w c) = active_idx c"
  "is_all_red (others_red w c) = is_all_red c"
  "all_red_start (others_red w c) = all_red_start c"
  by (auto simp add: others_red_def range3_def set_traffic_light_simps upper_char_r)

lemma reset_others_simps:
  "intersections (reset_others w c) j =
     (if j \<in> {0, 1, 2} \<and> j \<noteq> w then (intersections c j)\<lparr>consecutive_greens := 0\<rparr>
      else intersections c j)"
  "active_idx (reset_others w c) = active_idx c"
  "is_all_red (reset_others w c) = is_all_red c"
  "all_red_start (reset_others w c) = all_red_start c"
  by (auto simp add: reset_others_def range3_def)

lemma give_green_simps:
  "active_idx (give_green cfg w step c) = w"
  "is_all_red (give_green cfg w step c) = is_all_red c"
  "all_red_start (give_green cfg w step c) = all_red_start c"
  "j \<noteq> w \<Longrightarrow> current_light (intersections (give_green cfg w step c) j) = current_light (intersections c j)"
  "j \<noteq> w \<Longrightarrow> planned_duration (intersections (give_green cfg w step c) j) = planned_duration (intersections c j)"
  "current_light (intersections (give_green cfg w step c) w) = ''G''"
  by (simp_all add: give_green_def Let_def set_traffic_light_simps reset_others_simps upper_char_G)

lemma round1_bounds:
  assumes "10 \<le> x" "x \<le> 40"
  shows "10 \<le> round1 x \<and> round1 x \<le> 40"
proof -
  define f where "f = \<lfloor>x * 10\<rfloor>"
  have f1: "100 \<le> f" unfolding f_def using assms by (simp add: le_floor_iff)
  have f2: "f \<le> 400" unfolding f_def using assms by (simp add: floor_le_iff)
  have f3: "f < 400" if a: "x * 10 - of_int f \<ge> 1 / 2"
  proof -
    have "of_int f < x * 10" using a by linarith
    hence "real_of_int f < 400" using assms by linarith
    thus ?thesis by linarith
  qed
  show ?thesis
    unfolding round1_def Let_def f_def[symmetric]
    using f1 f2 f3 by (auto simp: field_simps)
qed

lemma round1_clamp:
  "10 \<le> round1 (min (max x 10) 40) \<and> round1 (min (max x 10) 40) \<le> 40"
  by (rule round1_bounds) simp_all

lemma give_green_planned_range:
  "10 \<le> planned_duration (intersections (give_green module_config w step c) w)
   \<and> planned_duration (intersections (give_green module_config w step c) w) \<le> 40"
  using round1_clamp
  by (simp add: give_green_def Let_def set_traffic_light_simps module_config_def)

subsection \<open>The invariants of the binary file\<close>

lemma light_control_gap_end:
  assumes "is_all_red c" "ALL_RED_TIME cfg \<le> real_of_int (step - all_red_start c)"
  shows "light_control cfg step c =
           give_green cfg (fst (find_winner c step)) step
             (others_red (fst (find_winner c step)) (c\<lparr>is_all_red := False\<rparr>))"
proof -
  have fw: "find_winner (c\<lparr>is_all_red := False\<rparr>) step = find_winner c step"
    by (simp add: find_winner_def get_priority_def)
  have "fst (find_winner c step) \<noteq> - 1"
    using find_winner_props(1) [of c step] by auto
  then show ?thesis using assms by (simp add: light_control_def Let_def fw)
qed

lemma light_control_lights_ok:
  assumes "lights_ok c"
  shows "lights_ok (light_control cfg step c)"
proof (cases "is_all_red c")
  case True
  show ?thesis
  proof (cases "ALL_RED_TIME cfg \<le> real_of_int (step - all_red_start c)")
    case e: True
    have w: "fst (find_winner c step) \<in> {0, 1, 2}" by (rule find_winner_props(1))
    show ?thesis
      unfolding light_control_gap_end [OF True e] lights_ok_def
      using w by (auto simp: give_green_simps others_red_simps is_red_def is_lit_def)
  next
    case False
    then show ?thesis using True assms by (simp add: light_control_def)
  qed
next
  case False
  show ?thesis
  proof (cases "active_idx c = - 1")
    case True
    then show ?thesis using False assms
      by (auto simp: light_control_def lights_ok_def)
  next
    case a: False
    show ?thesis using False a assms
      by (auto simp: light_control_def lights_ok_def Let_def set_traffic_light_simps
            upper_char_r upper_char_y is_red_def is_lit_def)
  qed
qed

lemma light_control_green_ok:
  assumes "green_ok module_config c"
  shows "green_ok module_config (light_control module_config step c)"
proof (cases "is_all_red c")
  case True
  show ?thesis
  proof (cases "ALL_RED_TIME module_config \<le> real_of_int (step - all_red_start c)")
    case e: True
    have w: "fst (find_winner c step) \<in> {0, 1, 2}" by (rule find_winner_props(1))
    note r = give_green_planned_range [of "fst (find_winner c step)" step
        "others_red (fst (find_winner c step)) (c\<lparr>is_all_red := False\<rparr>)"]
    have g: "G_MIN module_config = 10" "G_MAX module_config = 40"
      by (simp_all add: module_config_def)
    show ?thesis
      unfolding light_control_gap_end [OF True e] green_ok_def g
      using w r by (auto simp: give_green_simps others_red_simps)
  next
    case False
    then show ?thesis using True assms by (simp add: light_control_def)
  qed
next
  case False
  show ?thesis
  proof (cases "active_idx c = - 1")
    case True
    then show ?thesis using False assms
      by (auto simp: light_control_def green_ok_def)
  next
    case a: False
    show ?thesis using False a assms
      by (auto simp: light_control_def green_ok_def Let_def set_traffic_light_simps
            upper_char_r upper_char_y)
  qed
qed

lemma light_control_frozen:
  assumes "\<not> is_all_red c"
  shows "planned_duration (intersections (light_control cfg step c) i)
       = planned_duration (intersections c i)"
  using assms by (simp add: light_control_def Let_def set_traffic_light_simps)

lemma run_step_Inr:
  assumes "run_step cfg step sim c = Inr c'"
  shows "\<exists>w a. c' = light_control cfg step
            ((update_sensors cfg step sim c)\<lparr>total_waiting_time := w, vehicles_processed := a\<rparr>)"
  using assms by (auto simp: run_step_def Let_def split: sum.splits)

lemma sensed_lights_ok:
  "lights_ok ((update_sensors cfg step sim c)\<lparr>total_waiting_time := w, vehicles_processed := a\<rparr>)
     = lights_ok c"
  by (simp add: lights_ok_def update_sensors_frame)

lemma sensed_green_ok:
  "green_ok cfg' ((update_sensors cfg step sim c)\<lparr>total_waiting_time := w, vehicles_processed := a\<rparr>)
     = green_ok cfg' c"
  by (simp add: green_ok_def update_sensors_frame)

lemma run_step_lights_ok:
  assumes "run_step cfg step sim c = Inr c'" "lights_ok c"
  shows "lights_ok c'"
  using run_step_Inr [OF assms(1)] assms(2)
  by (auto simp: sensed_lights_ok intro: light_control_lights_ok)

lemma run_step_green_ok:
  assumes "run_step module_config step sim c = Inr c'" "green_ok module_config c"
  shows "green_ok module_config c'"
  using run_step_Inr [OF assms(1)] assms(2)
  by (auto simp: sensed_green_ok intro: light_control_green_ok)

lemma init_lights_ok: "lights_ok (SimulationController_init program)"
  by (simp add: lights_ok_def SimulationController_init_def IntersectionState_init_def is_red_def)

lemma init_green_ok: "green_ok cfg (SimulationController_init program)"
  by (simp add: green_ok_def SimulationController_init_def IntersectionState_init_def)

text \<open>
  In every reachable state the active index is \<open>- 1\<close> or a key of the dict, and the
  code looks the dict up at the active index only when it is not \<open>- 1\<close>: no lookup
  of \<^verbatim>\<open>self.intersections\<close> or of \<^verbatim>\<open>INTERSECTIONS\<close> misses its key.
\<close>

lemma reachable_lights_ok: "reachable cfg c \<Longrightarrow> lights_ok c"
  by (induction rule: reachable.induct) (auto intro: init_lights_ok run_step_lights_ok)

lemma reachable_active_idx: "reachable cfg c \<Longrightarrow> active_idx c \<in> {- 1, 0, 1, 2}"
  using reachable_lights_ok [of cfg c] by (simp add: lights_ok_def)

lemma reachable_green_ok: "reachable module_config c \<Longrightarrow> green_ok module_config c"
proof (induction module_config c rule: reachable.induct)
  case (start program)
  show ?case by (rule init_green_ok)
next
  case (tick c step sim c')
  then show ?case by (auto intro: run_step_green_ok)
qed

lemma run_step_frozen:
  assumes "run_step cfg step sim c = Inr c'" "\<not> is_all_red c"
  shows "planned_duration (intersections c' i) = planned_duration (intersections c i)"
proof -
  obtain w a where c': "c' = light_control cfg step
      ((update_sensors cfg step sim c)\<lparr>total_waiting_time := w, vehicles_processed := a\<rparr>)"
    using run_step_Inr [OF assms(1)] by blast
  show ?thesis unfolding c'
    using assms(2) by (subst light_control_frozen) (simp_all add: update_sensors_frame)
qed

lemma run_step_gap_end:
  assumes "run_step module_config step sim c = Inr c'" "is_all_red c"
    "ALL_RED_TIME module_config \<le> real_of_int (step - all_red_start c)"
  shows "active_idx c' \<in> {0, 1, 2} \<and> \<not> is_all_red c'
       \<and> current_light (intersections c' (active_idx c')) = ''G''
       \<and> G_MIN module_config \<le> planned_duration (intersections c' (active_idx c'))
       \<and> planned_duration (intersections c' (active_idx c')) \<le> G_MAX module_config"
proof -
  obtain w a where c': "c' = light_control module_config step
      ((update_sensors module_config step sim c)\<lparr>total_waiting_time := w, vehicles_processed := a\<rparr>)"
    (is "c' = light_control _ _ ?c1")
    using run_step_Inr [OF assms(1)] by blast
  have r: "is_all_red ?c1" "ALL_RED_TIME module_config \<le> real_of_int (step - all_red_start ?c1)"
    using assms(2,3) by (simp_all add: update_sensors_frame)
  have win: "fst (find_winner ?c1 step) \<in> {0, 1, 2}" by (rule find_winner_props(1))
  note rg = give_green_planned_range [of "fst (find_winner ?c1 step)" step
        "others_red (fst (find_winner ?c1 step)) (?c1\<lparr>is_all_red := False\<rparr>)"]
  have g: "G_MIN module_config = 10" "G_MAX module_config = 40"
    by (simp_all add: module_config_def)
  show ?thesis
    unfolding c' light_control_gap_end [OF r] g
    using win rg by (simp add: give_green_simps others_red_simps)
qed

subsection \<open>Sensing in the queue file\<close>

lemma measure_queue_eq:
  "measure_queue cfg step sim idx c =
     c\<lparr>intersections_q := (intersections_q c)
        (idx := (intersections_q c idx)
           \<lparr>vehicles_near := fst (zone_counts cfg sim idx),
            vehicles_medium := fst (snd (zone_counts cfg sim idx)),
            vehicles_far := snd (snd (zone_counts cfg sim idx)),
            total_queue_length := fst (zone_counts cfg sim idx)
               + fst (snd (zone_counts cfg sim idx)) + snd (snd (zone_counts cfg sim idx))\<rparr>)\<rparr>"
  by (simp add: measure_queue_def zone_counts_def Let_def split: prod.splits)

lemma measure_queue_length_intersections:
  "intersections_q (measure_queue_length cfg step sim c) j =
     (if j \<in> {0, 1, 2}
      then (intersections_q c j)
           \<lparr>vehicles_near := fst (zone_counts cfg sim j),
            vehicles_medium := fst (snd (zone_counts cfg sim j)),
            vehicles_far := snd (snd (zone_counts cfg sim j)),
            total_queue_length := fst (zone_counts cfg sim j)
               + fst (snd (zone_counts cfg sim j)) + snd (snd (zone_counts cfg sim j))\<rparr>
      else intersections_q c j)"
  by (simp add: measure_queue_length_def range3_def measure_queue_eq)

lemma measure_queue_length_frame:
  "active_idx_q (measure_queue_length cfg step sim c) = active_idx_q c"
  "is_all_red_q (measure_queue_length cfg step sim c) = is_all_red_q c"
  "all_red_start_q (measure_queue_length cfg step sim c) = all_red_start_q c"
  "current_light_q (intersections_q (measure_queue_length cfg step sim c) j) = current_light_q (intersections_q c j)"
  "planned_duration_q (intersections_q (measure_queue_length cfg step sim c) j) = planned_duration_q (intersections_q c j)"
  "last_green_end_q (intersections_q (measure_queue_length cfg step sim c) j) = last_green_end_q (intersections_q c j)"
  "state_start_q (intersections_q (measure_queue_length cfg step sim c) j) = state_start_q (intersections_q c j)"
  "consecutive_greens_q (intersections_q (measure_queue_length cfg step sim c) j) = consecutive_greens_q (intersections_q c j)"
  by (simp_all add: measure_queue_length_intersections)
     (simp_all add: measure_queue_length_def range3_def measure_queue_eq)

subsection \<open>What each helper of the queue file changes\<close>

lemma set_traffic_light_simps_q:
  "intersections_q (set_traffic_light_q idx ch c) j =
     (if j = idx then (intersections_q c idx)\<lparr>current_light_q := [upper_char ch]\<rparr>
      else intersections_q c j)"
  "active_idx_q (set_traffic_light_q idx ch c) = active_idx_q c"
  "is_all_red_q (set_traffic_light_q idx ch c) = is_all_red_q c"
  "all_red_start_q (set_traffic_light_q idx ch c) = all_red_start_q c"
  by (simp_all add: set_traffic_light_q_def)

lemma others_red_simps_q:
  "intersections_q (others_red_q w c) j =
     (if j \<in> {0, 1, 2} \<and> j \<noteq> w then (intersections_q c j)\<lparr>current_light_q := ''R''\<rparr>
      else intersections_q c j)"
  "active_idx_q (others_red_q w c) = active_idx_q c"
  "is_all_red_q (others_red_q w c) = is_all_red_q c"
  "all_red_start_q (others_red_q w c) = all_red_start_q c"
  by (auto simp add: others_red_q_def range3_def set_traffic_light_simps_q upper_char_r)

lemma reset_others_simps_q:
  "intersections_q (reset_others_q w c) j =
     (if j \<in> {0, 1, 2} \<and> j \<noteq> w then (intersections_q c j)\<lparr>consecutive_greens_q := 0\<rparr>
      else intersections_q c j)"
  "active_idx_q (reset_others_q w c) = active_idx_q c"
  "is_all_red_q (reset_others_q w c) = is_all_red_q c"
  "all_red_start_q (reset_others_q w c) = all_red_start_q c"
  by (auto simp add: reset_others_q_def range3_def)

lemma give_green_simps_q:
  "active_idx_q (give_green_q cfg w step c) = w"
  "is_all_red_q (give_green_q cfg w step c) = is_all_red_q c"
  "all_red_start_q (give_green_q cfg w step c) = all_red_start_q c"
  "j \<noteq> w \<Longrightarrow> current_light_q (intersections_q (give_green_q cfg w step c) j) = current_light_q (intersections_q c j)"
  "j \<noteq> w \<Longrightarrow> planned_duration_q (intersections_q (give_green_q cfg w step c) j) = planned_duration_q (intersections_q c j)"
  "current_light_q (intersections_q (give_green_q cfg w step c) w) = ''G''"
  by (simp_all add: give_green_q_def Let_def set_traffic_light_simps_q reset_others_simps_q upper_char_G)


lemma give_green_planned_range_q:
  "10 \<le> planned_duration_q (intersections_q (give_green_q module_config_q w step c) w)
   \<and> planned_duration_q (intersections_q (give_green_q module_config_q w step c) w) \<le> 40"
  using round1_clamp
  by (simp add: give_green_q_def calculate_green_time_def Let_def set_traffic_light_simps_q
        module_config_q_def)

subsection \<open>The invariants of the queue file\<close>

lemma light_control_gap_end_q:
  assumes "is_all_red_q c" "ALL_RED_TIME_q cfg \<le> real_of_int (step - all_red_start_q c)"
  shows "light_control_q cfg step c =
           give_green_q cfg (fst (find_winner_q cfg c step)) step
             (others_red_q (fst (find_winner_q cfg c step)) (c\<lparr>is_all_red_q := False\<rparr>))"
proof -
  have fw: "find_winner_q cfg (c\<lparr>is_all_red_q := False\<rparr>) step = find_winner_q cfg c step"
    by (simp add: find_winner_q_def get_priority_q_def)
  have "fst (find_winner_q cfg c step) \<noteq> - 1"
    using find_winner_q_props(1) [of cfg c step] by auto
  then show ?thesis using assms by (simp add: light_control_q_def Let_def fw)
qed

lemma light_control_lights_ok_q:
  assumes "lights_ok_q c"
  shows "lights_ok_q (light_control_q cfg step c)"
proof (cases "is_all_red_q c")
  case True
  show ?thesis
  proof (cases "ALL_RED_TIME_q cfg \<le> real_of_int (step - all_red_start_q c)")
    case e: True
    have w: "fst (find_winner_q cfg c step) \<in> {0, 1, 2}" by (rule find_winner_q_props(1))
    show ?thesis
      unfolding light_control_gap_end_q [OF True e] lights_ok_q_def
      using w by (auto simp: give_green_simps_q others_red_simps_q is_red_def is_lit_def)
  next
    case False
    then show ?thesis using True assms by (simp add: light_control_q_def)
  qed
next
  case False
  show ?thesis
  proof (cases "active_idx_q c = - 1")
    case True
    then show ?thesis using False assms
      by (auto simp: light_control_q_def lights_ok_q_def)
  next
    case a: False
    show ?thesis using False a assms
      by (auto simp: light_control_q_def lights_ok_q_def Let_def set_traffic_light_simps_q
            upper_char_r upper_char_y is_red_def is_lit_def)
  qed
qed

lemma light_control_green_ok_q:
  assumes "green_ok_q module_config_q c"
  shows "green_ok_q module_config_q (light_control_q module_config_q step c)"
proof (cases "is_all_red_q c")
  case True
  show ?thesis
  proof (cases "ALL_RED_TIME_q module_config_q \<le> real_of_int (step - all_red_start_q c)")
    case e: True
    have w: "fst (find_winner_q module_config_q c step) \<in> {0, 1, 2}" by (rule find_winner_q_props(1))
    note r = give_green_planned_range_q [of "fst (find_winner_q module_config_q c step)" step
        "others_red_q (fst (find_winner_q module_config_q c step)) (c\<lparr>is_all_red_q := False\<rparr>)"]
    have g: "G_MIN_q module_config_q = 10" "G_MAX_q module_config_q = 40"
      by (simp_all add: module_config_q_def)
    show ?thesis
      unfolding light_control_gap_end_q [OF True e] green_ok_q_def g
      using w r by (auto simp: give_green_simps_q others_red_simps_q)
  next
    case False
    then show ?thesis using True assms by (simp add: light_control_q_def)
  qed
next
  case False
  show ?thesis
  proof (cases "active_idx_q c = - 1")
    case True
    then show ?thesis using False assms
      by (auto simp: light_control_q_def green_ok_q_def)
  next
    case a: False
    show ?thesis using False a assms
      by (auto simp: light_control_q_def green_ok_q_def Let_def set_traffic_light_simps_q
            upper_char_r upper_char_y)
  qed
qed

lemma light_control_frozen_q:
  assumes "\<not> is_all_red_q c"
  shows "planned_duration_q (intersections_q (light_control_q cfg step c) i)
       = planned_duration_q (intersections_q c i)"
  using assms by (simp add: light_control_q_def Let_def set_traffic_light_simps_q)

lemma run_step_Inr_q:
  assumes "run_step_q cfg step sim c = Inr c'"
  shows "\<exists>w a. c' = light_control_q cfg step
            ((measure_queue_length cfg step sim c)\<lparr>total_waiting_time_q := w, vehicles_processed_q := a\<rparr>)"
  using assms by (auto simp: run_step_q_def Let_def split: sum.splits)

lemma sensed_lights_ok_q:
  "lights_ok_q ((measure_queue_length cfg step sim c)\<lparr>total_waiting_time_q := w, vehicles_processed_q := a\<rparr>)
     = lights_ok_q c"
  by (simp add: lights_ok_q_def measure_queue_length_frame)

lemma sensed_green_ok_q:
  "green_ok_q cfg' ((measure_queue_length cfg step sim c)\<lparr>total_waiting_time_q := w, vehicles_processed_q := a\<rparr>)
     = green_ok_q cfg' c"
  by (simp add: green_ok_q_def measure_queue_length_frame)

lemma run_step_lights_ok_q:
  assumes "run_step_q cfg step sim c = Inr c'" "lights_ok_q c"
  shows "lights_ok_q c'"
  using run_step_Inr_q [OF assms(1)] assms(2)
  by (auto simp: sensed_lights_ok_q intro: light_control_lights_ok_q)

lemma run_step_green_ok_q:
  assumes "run_step_q module_config_q step sim c = Inr c'" "green_ok_q module_config_q c"
  shows "green_ok_q module_config_q c'"
  using run_step_Inr_q [OF assms(1)] assms(2)
  by (auto simp: sensed_green_ok_q intro: light_control_green_ok_q)

lemma init_lights_ok_q: "lights_ok_q (SimulationController_init_q program)"
  by (simp add: lights_ok_q_def SimulationController_init_q_def IntersectionState_init_q_def is_red_def)

lemma init_green_ok_q: "green_ok_q cfg (SimulationController_init_q program)"
  by (simp add: green_ok_q_def SimulationController_init_q_def IntersectionState_init_q_def)

lemma reachable_lights_ok_q: "reachable_q cfg c \<Longrightarrow> lights_ok_q c"
  by (induction rule: reachable_q.induct) (auto intro: init_lights_ok_q run_step_lights_ok_q)

lemma reachable_active_idx_q: "reachable_q cfg c \<Longrightarrow> active_idx_q c \<in> {- 1, 0, 1, 2}"
  using reachable_lights_ok_q [of cfg c] by (simp add: lights_ok_q_def)

lemma reachable_green_ok_q: "reachable_q module_config_q c \<Longrightarrow> green_ok_q module_config_q c"
proof (induction module_config_q c rule: reachable_q.induct)
  case (start_q program)
  show ?case by (rule init_green_ok_q)
next
  case (tick_q c step sim c')
  then show ?case by (auto intro: run_step_green_ok_q)
qed

lemma run_step_frozen_q:
  assumes "run_step_q cfg step sim c = Inr c'" "\<not> is_all_red_q c"
  shows "planned_duration_q (intersections_q c' i) = planned_duration_q (intersections_q c i)"
proof -
  obtain w a where c': "c' = light_control_q cfg step
      ((measure_queue_length cfg step sim c)\<lparr>total_waiting_time_q := w, vehicles_processed_q := a\<rparr>)"
    using run_step_Inr_q [OF assms(1)] by blast
  show ?thesis unfolding c'
    using assms(2) by (subst light_control_frozen_q) (simp_all add: measure_queue_length_frame)
qed

lemma run_step_gap_end_q:
  assumes "run_step_q module_config_q step sim c = Inr c'" "is_all_red_q c"
    "ALL_RED_TIME_q module_config_q \<le> real_of_int (step - all_red_start_q c)"
  shows "active_idx_q c' \<in> {0, 1, 2} \<and> \<not> is_all_red_q c'
       \<and> current_light_q (intersections_q c' (active_idx_q c')) = ''G''
       \<and> G_MIN_q module_config_q \<le> planned_duration_q (intersections_q c' (active_idx_q c'))
       \<and> planned_duration_q (intersections_q c' (active_idx_q c')) \<le> G_MAX_q module_config_q"
proof -
  obtain w a where c': "c' = light_control_q module_config_q step
      ((measure_queue_length module_config_q step sim c)\<lparr>total_waiting_time_q := w, vehicles_processed_q := a\<rparr>)"
    (is "c' = light_control_q _ _ ?c1")
    using run_step_Inr_q [OF assms(1)] by blast
  have r: "is_all_red_q ?c1" "ALL_RED_TIME_q module_config_q \<le> real_of_int (step - all_red_start_q ?c1)"
    using assms(2,3) by (simp_all add: measure_queue_length_frame)
  have win: "fst (find_winner_q module_config_q ?c1 step) \<in> {0, 1, 2}" by (rule find_winner_q_props(1))
  note rg = give_green_planned_range_q [of "fst (find_winner_q module_config_q ?c1 step)" step
        "others_red_q (fst (find_winner_q module_config_q ?c1 step)) (?c1\<lparr>is_all_red_q := False\<rparr>)"]
  have g: "G_MIN_q module_config_q = 10" "G_MAX_q module_config_q = 40"
    by (simp_all add: module_config_q_def)
  show ?thesis
    unfolding c' light_control_gap_end_q [OF r] g
    using win rg by (simp add: give_green_simps_q others_red_simps_q)
qed

subsection \<open>Mutual exclusion and the planned green\<close>

lemma drive_reachable:
  "reachable cfg c \<Longrightarrow> drive cfg sims step c = Inr c' \<Longrightarrow> reachable cfg c'"
proof (induction sims arbitrary: step c)
  case Nil
  then show ?case by simp
next
  case (Cons sim sims)
  then show ?case by (auto split: sum.splits intro: reachable.tick)
qed

lemma drive_q_reachable:
  "reachable_q cfg c \<Longrightarrow> drive_q cfg sims step c = Inr c' \<Longrightarrow> reachable_q cfg c'"
proof (induction sims arbitrary: step c)
  case Nil
  then show ?case by simp
next
  case (Cons sim sims)
  then show ?case by (auto split: sum.splits intro: reachable_q.tick_q)
qed

lemma first_green_reachable: "reachable module_config first_green"
proof -
  have "\<not> isl (drive module_config [quiet, quiet] 0 (SimulationController_init ''rrrrrr''))"
    by code_simp
  then have "drive module_config [quiet, quiet] 0 (SimulationController_init ''rrrrrr'')
      = Inr first_green"
    unfolding first_green_def by simp
  then show ?thesis by (rule drive_reachable [OF reachable.start])
qed

lemma first_green_q_reachable: "reachable_q module_config_q first_green_q"
proof -
  have "\<not> isl (drive_q module_config_q [quiet, quiet] 0 (SimulationController_init_q ''rrrrrr''))"
    by code_simp
  then have "drive_q module_config_q [quiet, quiet] 0 (SimulationController_init_q ''rrrrrr'')
      = Inr first_green_q"
    unfolding first_green_q_def by simp
  then show ?thesis by (rule drive_q_reachable [OF reachable_q.start_q])
qed

lemma red_not_lit: "is_red l \<Longrightarrow> \<not> is_lit l"
  by (auto simp: is_red_def is_lit_def)

text \<open>
  C1. Mutual exclusion. In every state that the controller of either file reaches from
  its initial state (all signals \<^verbatim>\<open>'RED'\<close>) by ticks that return, whatever the ticks
  and the perceptions are, every approach other than the active one is red, and two
  approaches are never lit (\<^verbatim>\<open>'G'\<close> or \<^verbatim>\<open>'Y'\<close>) together.
\<close>

theorem C1_mutual_exclusion:
  assumes "reachable cfg c" and "reachable_q cfg_q q"
  shows "(\<forall>i\<in>{0, 1, 2}. i \<noteq> active_idx c \<longrightarrow> is_red (current_light (intersections c i)))
    \<and> (\<forall>i\<in>{0, 1, 2}. \<forall>j\<in>{0, 1, 2}.
          is_lit (current_light (intersections c i)) \<and> is_lit (current_light (intersections c j))
          \<longrightarrow> i = j)
    \<and> (\<forall>i\<in>{0, 1, 2}. i \<noteq> active_idx_q q \<longrightarrow> is_red (current_light_q (intersections_q q i)))
    \<and> (\<forall>i\<in>{0, 1, 2}. \<forall>j\<in>{0, 1, 2}.
          is_lit (current_light_q (intersections_q q i)) \<and> is_lit (current_light_q (intersections_q q j))
          \<longrightarrow> i = j)"
proof -
  have b: "\<forall>i\<in>{0, 1, 2}. i \<noteq> active_idx c \<longrightarrow> is_red (current_light (intersections c i))"
    using reachable_lights_ok [OF assms(1)] by (simp add: lights_ok_def)
  have qq: "\<forall>i\<in>{0, 1, 2}. i \<noteq> active_idx_q q \<longrightarrow> is_red (current_light_q (intersections_q q i))"
    using reachable_lights_ok_q [OF assms(2)] by (simp add: lights_ok_q_def)
  have b2: "\<forall>i\<in>{0, 1, 2}. \<forall>j\<in>{0, 1, 2}.
          is_lit (current_light (intersections c i)) \<and> is_lit (current_light (intersections c j))
          \<longrightarrow> i = j"
  proof (intro ballI impI)
    fix i j :: int
    assume i: "i \<in> {0, 1, 2}" and j: "j \<in> {0, 1, 2}"
      and l: "is_lit (current_light (intersections c i)) \<and> is_lit (current_light (intersections c j))"
    have "i = active_idx c" using b i l red_not_lit by blast
    moreover have "j = active_idx c" using b j l red_not_lit by blast
    ultimately show "i = j" by simp
  qed
  have q2: "\<forall>i\<in>{0, 1, 2}. \<forall>j\<in>{0, 1, 2}.
          is_lit (current_light_q (intersections_q q i)) \<and> is_lit (current_light_q (intersections_q q j))
          \<longrightarrow> i = j"
  proof (intro ballI impI)
    fix i j :: int
    assume i: "i \<in> {0, 1, 2}" and j: "j \<in> {0, 1, 2}"
      and l: "is_lit (current_light_q (intersections_q q i))
            \<and> is_lit (current_light_q (intersections_q q j))"
    have "i = active_idx_q q" using qq i l red_not_lit by blast
    moreover have "j = active_idx_q q" using qq j l red_not_lit by blast
    ultimately show "i = j" by simp
  qed
  from b b2 qq q2 show ?thesis by blast
qed

text \<open>After the first gap the approach 0 is lit and the other two are red, in both files.\<close>

theorem C1_mutual_exclusion_witness:
  "is_lit (current_light (intersections first_green 0))
   \<and> is_red (current_light (intersections first_green 1))
   \<and> is_red (current_light (intersections first_green 2))
   \<and> is_lit (current_light_q (intersections_q first_green_q 0))
   \<and> is_red (current_light_q (intersections_q first_green_q 1))
   \<and> is_red (current_light_q (intersections_q first_green_q 2))"
proof -
  have a: "active_idx first_green = 0" "active_idx_q first_green_q = 0" by code_simp+
  have l: "is_lit (current_light (intersections first_green 0))"
     "is_lit (current_light_q (intersections_q first_green_q 0))" by code_simp+
  show ?thesis
    using C1_mutual_exclusion [OF first_green_reachable first_green_q_reachable] a l
    by simp
qed

text \<open>
  C3. Green-time allocation, for the constants of the files. From a reachable state in
  the gap, a tick that ends the gap leaves an active approach showing \<^verbatim>\<open>'G'\<close> with a
  planned duration in \<open>[G_MIN, G_MAX]\<close>. In every reachable state, an approach showing
  \<^verbatim>\<open>'G'\<close> has a planned duration in \<open>[G_MIN, G_MAX]\<close>, and the next tick leaves that
  duration as it is, whatever its tick number and its perception are: the duration is
  the same in every state of a green phase.
\<close>

theorem C3_green_time_frozen:
  assumes "reachable module_config c" and "reachable_q module_config_q q"
  shows "(is_all_red c \<and> ALL_RED_TIME module_config \<le> real_of_int (step - all_red_start c)
            \<and> run_step module_config step sim c = Inr c'
          \<longrightarrow> active_idx c' \<in> {0, 1, 2}
              \<and> current_light (intersections c' (active_idx c')) = ''G''
              \<and> G_MIN module_config \<le> planned_duration (intersections c' (active_idx c'))
              \<and> planned_duration (intersections c' (active_idx c')) \<le> G_MAX module_config)
    \<and> (\<forall>i\<in>{0, 1, 2}. current_light (intersections c i) = ''G'' \<longrightarrow>
          G_MIN module_config \<le> planned_duration (intersections c i)
          \<and> planned_duration (intersections c i) \<le> G_MAX module_config
          \<and> (\<forall>step sim c'. run_step module_config step sim c = Inr c'
                \<longrightarrow> planned_duration (intersections c' i) = planned_duration (intersections c i)))
    \<and> (is_all_red_q q \<and> ALL_RED_TIME_q module_config_q \<le> real_of_int (step - all_red_start_q q)
            \<and> run_step_q module_config_q step sim q = Inr q'
          \<longrightarrow> active_idx_q q' \<in> {0, 1, 2}
              \<and> current_light_q (intersections_q q' (active_idx_q q')) = ''G''
              \<and> G_MIN_q module_config_q \<le> planned_duration_q (intersections_q q' (active_idx_q q'))
              \<and> planned_duration_q (intersections_q q' (active_idx_q q')) \<le> G_MAX_q module_config_q)
    \<and> (\<forall>i\<in>{0, 1, 2}. current_light_q (intersections_q q i) = ''G'' \<longrightarrow>
          G_MIN_q module_config_q \<le> planned_duration_q (intersections_q q i)
          \<and> planned_duration_q (intersections_q q i) \<le> G_MAX_q module_config_q
          \<and> (\<forall>step sim q'. run_step_q module_config_q step sim q = Inr q'
                \<longrightarrow> planned_duration_q (intersections_q q' i) = planned_duration_q (intersections_q q i)))"
proof -
  have b1: "is_all_red c \<and> ALL_RED_TIME module_config \<le> real_of_int (step - all_red_start c)
            \<and> run_step module_config step sim c = Inr c'
          \<longrightarrow> active_idx c' \<in> {0, 1, 2}
              \<and> current_light (intersections c' (active_idx c')) = ''G''
              \<and> G_MIN module_config \<le> planned_duration (intersections c' (active_idx c'))
              \<and> planned_duration (intersections c' (active_idx c')) \<le> G_MAX module_config"
    using run_step_gap_end [of step sim c c'] by blast
  have q1: "is_all_red_q q \<and> ALL_RED_TIME_q module_config_q \<le> real_of_int (step - all_red_start_q q)
            \<and> run_step_q module_config_q step sim q = Inr q'
          \<longrightarrow> active_idx_q q' \<in> {0, 1, 2}
              \<and> current_light_q (intersections_q q' (active_idx_q q')) = ''G''
              \<and> G_MIN_q module_config_q \<le> planned_duration_q (intersections_q q' (active_idx_q q'))
              \<and> planned_duration_q (intersections_q q' (active_idx_q q')) \<le> G_MAX_q module_config_q"
    using run_step_gap_end_q [of step sim q q'] by blast
  have b2: "\<forall>i\<in>{0, 1, 2}. current_light (intersections c i) = ''G'' \<longrightarrow>
          G_MIN module_config \<le> planned_duration (intersections c i)
          \<and> planned_duration (intersections c i) \<le> G_MAX module_config
          \<and> (\<forall>step sim c'. run_step module_config step sim c = Inr c'
                \<longrightarrow> planned_duration (intersections c' i) = planned_duration (intersections c i))"
  proof (intro ballI impI)
    fix i :: int
    assume i: "i \<in> {0, 1, 2}" and g: "current_light (intersections c i) = ''G''"
    have ok: "\<not> is_all_red c \<and> active_idx c = i
        \<and> G_MIN module_config \<le> planned_duration (intersections c i)
        \<and> planned_duration (intersections c i) \<le> G_MAX module_config"
      using reachable_green_ok [OF assms(1)] i g unfolding green_ok_def by blast
    then have "\<forall>step sim c'. run_step module_config step sim c = Inr c'
                \<longrightarrow> planned_duration (intersections c' i) = planned_duration (intersections c i)"
      using run_step_frozen by blast
    with ok show "G_MIN module_config \<le> planned_duration (intersections c i)
          \<and> planned_duration (intersections c i) \<le> G_MAX module_config
          \<and> (\<forall>step sim c'. run_step module_config step sim c = Inr c'
                \<longrightarrow> planned_duration (intersections c' i) = planned_duration (intersections c i))"
      by blast
  qed
  have q2: "\<forall>i\<in>{0, 1, 2}. current_light_q (intersections_q q i) = ''G'' \<longrightarrow>
          G_MIN_q module_config_q \<le> planned_duration_q (intersections_q q i)
          \<and> planned_duration_q (intersections_q q i) \<le> G_MAX_q module_config_q
          \<and> (\<forall>step sim q'. run_step_q module_config_q step sim q = Inr q'
                \<longrightarrow> planned_duration_q (intersections_q q' i) = planned_duration_q (intersections_q q i))"
  proof (intro ballI impI)
    fix i :: int
    assume i: "i \<in> {0, 1, 2}" and g: "current_light_q (intersections_q q i) = ''G''"
    have ok: "\<not> is_all_red_q q \<and> active_idx_q q = i
        \<and> G_MIN_q module_config_q \<le> planned_duration_q (intersections_q q i)
        \<and> planned_duration_q (intersections_q q i) \<le> G_MAX_q module_config_q"
      using reachable_green_ok_q [OF assms(2)] i g unfolding green_ok_q_def by blast
    then have "\<forall>step sim q'. run_step_q module_config_q step sim q = Inr q'
                \<longrightarrow> planned_duration_q (intersections_q q' i) = planned_duration_q (intersections_q q i)"
      using run_step_frozen_q by blast
    with ok show "G_MIN_q module_config_q \<le> planned_duration_q (intersections_q q i)
          \<and> planned_duration_q (intersections_q q i) \<le> G_MAX_q module_config_q
          \<and> (\<forall>step sim q'. run_step_q module_config_q step sim q = Inr q'
                \<longrightarrow> planned_duration_q (intersections_q q' i) = planned_duration_q (intersections_q q i))"
      by blast
  qed
  from b1 b2 q1 q2 show ?thesis by blast
qed

text \<open>
  The first green of the approach 0 is planned for 10.8 s (10.2 s in the queue file); a
  car that stops 5 m from its stop line on the next tick changes the detection and
  leaves the plan as it is.
\<close>

theorem C3_green_time_frozen_witness:
  "current_light (intersections first_green 0) = ''G''
   \<and> planned_duration (intersections first_green 0) = 54 / 5
   \<and> fst (candidates module_config (on_r1 [car 5 0]) 0)
   \<and> planned_duration
        (intersections (projr (run_step module_config 2 (on_r1 [car 5 0]) first_green)) 0) = 54 / 5
   \<and> current_light_q (intersections_q first_green_q 0) = ''G''
   \<and> planned_duration_q (intersections_q first_green_q 0) = 51 / 5
   \<and> vehicles_near
        (intersections_q (projr (run_step_q module_config_q 2 (on_r1 [car 5 0]) first_green_q)) 0) = 1
   \<and> planned_duration_q
        (intersections_q (projr (run_step_q module_config_q 2 (on_r1 [car 5 0]) first_green_q)) 0)
       = 51 / 5"
proof -
  have g: "current_light (intersections first_green 0) = ''G''"
    "current_light_q (intersections_q first_green_q 0) = ''G''" by code_simp+
  have p: "planned_duration (intersections first_green 0) = 54 / 5"
    "planned_duration_q (intersections_q first_green_q 0) = 51 / 5" by code_simp+
  have s: "fst (candidates module_config (on_r1 [car 5 0]) 0)"
    "vehicles_near
        (intersections_q (projr (run_step_q module_config_q 2 (on_r1 [car 5 0]) first_green_q)) 0) = 1"
    by code_simp+
  have "\<not> isl (run_step module_config 2 (on_r1 [car 5 0]) first_green)" by code_simp
  then have r: "run_step module_config 2 (on_r1 [car 5 0]) first_green
      = Inr (projr (run_step module_config 2 (on_r1 [car 5 0]) first_green))" by simp
  have "\<not> isl (run_step_q module_config_q 2 (on_r1 [car 5 0]) first_green_q)" by code_simp
  then have rq: "run_step_q module_config_q 2 (on_r1 [car 5 0]) first_green_q
      = Inr (projr (run_step_q module_config_q 2 (on_r1 [car 5 0]) first_green_q))" by simp
  note t = C3_green_time_frozen [OF first_green_reachable first_green_q_reachable]
  have "planned_duration
        (intersections (projr (run_step module_config 2 (on_r1 [car 5 0]) first_green)) 0)
      = planned_duration (intersections first_green 0)"
    using t g(1) r by blast
  moreover have "planned_duration_q
        (intersections_q (projr (run_step_q module_config_q 2 (on_r1 [car 5 0]) first_green_q)) 0)
      = planned_duration_q (intersections_q first_green_q 0)"
    using t g(2) rq by blast
  ultimately show ?thesis using g p s by simp
qed

subsection \<open>Debounce of the binary sensors\<close>

lemma give_green_detection:
  "near_sensor_occupied (intersections (give_green cfg w step c) j) = near_sensor_occupied (intersections c j)"
  "far_sensor_occupied (intersections (give_green cfg w step c) j) = far_sensor_occupied (intersections c j)"
  "near_detect_time (intersections (give_green cfg w step c) j) = near_detect_time (intersections c j)"
  "far_detect_time (intersections (give_green cfg w step c) j) = far_detect_time (intersections c j)"
  by (simp_all add: give_green_def Let_def set_traffic_light_simps reset_others_simps)

lemma others_red_detection:
  "near_sensor_occupied (intersections (others_red w c) j) = near_sensor_occupied (intersections c j)"
  "far_sensor_occupied (intersections (others_red w c) j) = far_sensor_occupied (intersections c j)"
  "near_detect_time (intersections (others_red w c) j) = near_detect_time (intersections c j)"
  "far_detect_time (intersections (others_red w c) j) = far_detect_time (intersections c j)"
  by (simp_all add: others_red_simps)

lemma light_control_detection:
  "near_sensor_occupied (intersections (light_control cfg step c) j) = near_sensor_occupied (intersections c j)"
  "far_sensor_occupied (intersections (light_control cfg step c) j) = far_sensor_occupied (intersections c j)"
  "near_detect_time (intersections (light_control cfg step c) j) = near_detect_time (intersections c j)"
  "far_detect_time (intersections (light_control cfg step c) j) = far_detect_time (intersections c j)"
  by (simp_all add: light_control_def Let_def set_traffic_light_simps give_green_detection
        others_red_detection)

text \<open>The detection fields of an approach after a tick that returned.\<close>

lemma run_step_detection:
  assumes "run_step cfg step sim c = Inr c'" "j \<in> {0, 1, 2}"
  shows "near_sensor_occupied (intersections c' j)
           = near_sensor_occupied (near_persistence cfg step (fst (candidates cfg sim j)) (intersections c j))"
    and "near_detect_time (intersections c' j)
           = near_detect_time (near_persistence cfg step (fst (candidates cfg sim j)) (intersections c j))"
    and "far_sensor_occupied (intersections c' j)
           = far_sensor_occupied (far_persistence cfg step (snd (candidates cfg sim j)) (intersections c j))"
    and "far_detect_time (intersections c' j)
           = far_detect_time (far_persistence cfg step (snd (candidates cfg sim j)) (intersections c j))"
proof -
  obtain w a where c': "c' = light_control cfg step
      ((update_sensors cfg step sim c)\<lparr>total_waiting_time := w, vehicles_processed := a\<rparr>)"
    using run_step_Inr [OF assms(1)] by blast
  show "near_sensor_occupied (intersections c' j)
           = near_sensor_occupied (near_persistence cfg step (fst (candidates cfg sim j)) (intersections c j))"
    and "near_detect_time (intersections c' j)
           = near_detect_time (near_persistence cfg step (fst (candidates cfg sim j)) (intersections c j))"
    and "far_sensor_occupied (intersections c' j)
           = far_sensor_occupied (far_persistence cfg step (snd (candidates cfg sim j)) (intersections c j))"
    and "far_detect_time (intersections c' j)
           = far_detect_time (far_persistence cfg step (snd (candidates cfg sim j)) (intersections c j))"
    unfolding c' using assms(2)
    by (simp_all add: light_control_detection update_sensors_intersections far_persistence_frame)
       (simp_all add: far_persistence_def near_persistence_def Let_def)
qed

lemma run_step_reset:
  assumes "run_step cfg step sim c = Inr c'" "j \<in> {0, 1, 2}"
  shows "\<not> fst (candidates cfg sim j)
           \<Longrightarrow> \<not> near_sensor_occupied (intersections c' j) \<and> near_detect_time (intersections c' j) = 0"
    and "\<not> snd (candidates cfg sim j)
           \<Longrightarrow> \<not> far_sensor_occupied (intersections c' j) \<and> far_detect_time (intersections c' j) = 0"
  using run_step_detection [OF assms]
  by (simp_all add: near_persistence_def far_persistence_def)

text \<open>A timer that runs keeps its origin while the candidate stays true.\<close>

lemma near_hold:
  assumes "\<forall>sim\<in>set sims. fst (candidates cfg sim j)" "j \<in> {0, 1, 2}"
    and "near_detect_time (intersections c j) = s0" "s0 \<noteq> 0" "sims \<noteq> []"
    and "drive cfg sims s c = Inr c'"
  shows "near_detect_time (intersections c' j) = s0
       \<and> near_sensor_occupied (intersections c' j)
           = (SENSOR_DELAY cfg \<le> s + int (length sims) - 1 - s0)"
  using assms
proof (induction sims arbitrary: s c)
  case Nil
  then show ?case by simp
next
  case (Cons sim sims)
  from Cons.prems(6) obtain c1 where r: "run_step cfg s sim c = Inr c1"
    and d: "drive cfg sims (s + 1) c1 = Inr c'"
    by (auto split: sum.splits)
  have cand: "fst (candidates cfg sim j)" using Cons.prems(1) by simp
  note f = run_step_detection(1,2) [OF r Cons.prems(2)]
  have t1: "near_detect_time (intersections c1 j) = s0"
    using f(2) cand Cons.prems(3,4) by (simp add: near_persistence_def Let_def)
  have o1: "near_sensor_occupied (intersections c1 j) = (SENSOR_DELAY cfg \<le> s - s0)"
    using f(1) cand Cons.prems(3,4) by (simp add: near_persistence_def Let_def)
  show ?case
  proof (cases "sims = []")
    case True
    then show ?thesis using d t1 o1 by simp
  next
    case False
    have "\<forall>sim\<in>set sims. fst (candidates cfg sim j)" using Cons.prems(1) by simp
    from Cons.IH [OF this Cons.prems(2) t1 Cons.prems(4) False d]
    show ?thesis by (simp add: algebra_simps)
  qed
qed

lemma near_start:
  assumes "\<forall>sim\<in>set sims. fst (candidates cfg sim j)" "j \<in> {0, 1, 2}"
    and "near_detect_time (intersections c j) = 0" "s \<noteq> 0" "sims \<noteq> []"
    and "drive cfg sims s c = Inr c'"
  shows "near_detect_time (intersections c' j) = s
       \<and> near_sensor_occupied (intersections c' j) = (SENSOR_DELAY cfg < int (length sims))"
proof -
  obtain sim rest where sims: "sims = sim # rest" using assms(5) by (cases sims) auto
  from assms(6) obtain c1 where r: "run_step cfg s sim c = Inr c1"
    and d: "drive cfg rest (s + 1) c1 = Inr c'"
    unfolding sims by (auto split: sum.splits)
  have cand: "fst (candidates cfg sim j)" using assms(1) sims by simp
  note f = run_step_detection(1,2) [OF r assms(2)]
  have t1: "near_detect_time (intersections c1 j) = s"
    using f(2) cand assms(3) by (simp add: near_persistence_def Let_def)
  have o1: "near_sensor_occupied (intersections c1 j) = (SENSOR_DELAY cfg \<le> 0)"
    using f(1) cand assms(3) by (simp add: near_persistence_def Let_def)
  show ?thesis
  proof (cases "rest = []")
    case True
    then show ?thesis using d t1 o1 sims by auto
  next
    case False
    have "\<forall>sim\<in>set rest. fst (candidates cfg sim j)" using assms(1) sims by simp
    from near_hold [OF this assms(2) t1 assms(4) False d]
    show ?thesis unfolding sims by auto
  qed
qed

lemma far_hold:
  assumes "\<forall>sim\<in>set sims. snd (candidates cfg sim j)" "j \<in> {0, 1, 2}"
    and "far_detect_time (intersections c j) = s0" "s0 \<noteq> 0" "sims \<noteq> []"
    and "drive cfg sims s c = Inr c'"
  shows "far_detect_time (intersections c' j) = s0
       \<and> far_sensor_occupied (intersections c' j)
           = (SENSOR_DELAY cfg \<le> s + int (length sims) - 1 - s0)"
  using assms
proof (induction sims arbitrary: s c)
  case Nil
  then show ?case by simp
next
  case (Cons sim sims)
  from Cons.prems(6) obtain c1 where r: "run_step cfg s sim c = Inr c1"
    and d: "drive cfg sims (s + 1) c1 = Inr c'"
    by (auto split: sum.splits)
  have cand: "snd (candidates cfg sim j)" using Cons.prems(1) by simp
  note f = run_step_detection(3,4) [OF r Cons.prems(2)]
  have t1: "far_detect_time (intersections c1 j) = s0"
    using f(2) cand Cons.prems(3,4) by (simp add: far_persistence_def Let_def)
  have o1: "far_sensor_occupied (intersections c1 j) = (SENSOR_DELAY cfg \<le> s - s0)"
    using f(1) cand Cons.prems(3,4) by (simp add: far_persistence_def Let_def)
  show ?case
  proof (cases "sims = []")
    case True
    then show ?thesis using d t1 o1 by simp
  next
    case False
    have "\<forall>sim\<in>set sims. snd (candidates cfg sim j)" using Cons.prems(1) by simp
    from Cons.IH [OF this Cons.prems(2) t1 Cons.prems(4) False d]
    show ?thesis by (simp add: algebra_simps)
  qed
qed

lemma far_start:
  assumes "\<forall>sim\<in>set sims. snd (candidates cfg sim j)" "j \<in> {0, 1, 2}"
    and "far_detect_time (intersections c j) = 0" "s \<noteq> 0" "sims \<noteq> []"
    and "drive cfg sims s c = Inr c'"
  shows "far_detect_time (intersections c' j) = s
       \<and> far_sensor_occupied (intersections c' j) = (SENSOR_DELAY cfg < int (length sims))"
proof -
  obtain sim rest where sims: "sims = sim # rest" using assms(5) by (cases sims) auto
  from assms(6) obtain c1 where r: "run_step cfg s sim c = Inr c1"
    and d: "drive cfg rest (s + 1) c1 = Inr c'"
    unfolding sims by (auto split: sum.splits)
  have cand: "snd (candidates cfg sim j)" using assms(1) sims by simp
  note f = run_step_detection(3,4) [OF r assms(2)]
  have t1: "far_detect_time (intersections c1 j) = s"
    using f(2) cand assms(3) by (simp add: far_persistence_def Let_def)
  have o1: "far_sensor_occupied (intersections c1 j) = (SENSOR_DELAY cfg \<le> 0)"
    using f(1) cand assms(3) by (simp add: far_persistence_def Let_def)
  show ?thesis
  proof (cases "rest = []")
    case True
    then show ?thesis using d t1 o1 sims by auto
  next
    case False
    have "\<forall>sim\<in>set rest. snd (candidates cfg sim j)" using assms(1) sims by simp
    from far_hold [OF this assms(2) t1 assms(4) False d]
    show ?thesis unfolding sims by auto
  qed
qed

text \<open>
  C4 (amended). Binary-mode debounce, for each of the two sensors of an approach. Take
  a run of ticks of the loop that starts at a tick other than 0 with the timer at rest,
  and on every tick of which the candidate is true. After the run the flag is set if
  and only if the run is longer than \<^verbatim>\<open>SENSOR_DELAY\<close> ticks: a run of
  \<^verbatim>\<open>SENSOR_DELAY - 1\<close> or of \<^verbatim>\<open>SENSOR_DELAY\<close> ticks never sets it, and the
  tick number \<^verbatim>\<open>SENSOR_DELAY + 1\<close> of the run, on which \<^verbatim>\<open>step - detect_time\<close>
  reaches \<^verbatim>\<open>SENSOR_DELAY\<close>, sets it. A tick on which the candidate is false clears
  the flag and puts the timer back to 0.
\<close>

theorem C4_debounce:
  assumes "j \<in> {0, 1, 2}" and "s \<noteq> 0" and "sims \<noteq> []" and "drive cfg sims s c = Inr c'"
  shows "(near_detect_time (intersections c j) = 0 \<and> (\<forall>sim\<in>set sims. fst (candidates cfg sim j))
           \<longrightarrow> near_sensor_occupied (intersections c' j) = (SENSOR_DELAY cfg < int (length sims)))
    \<and> (far_detect_time (intersections c j) = 0 \<and> (\<forall>sim\<in>set sims. snd (candidates cfg sim j))
           \<longrightarrow> far_sensor_occupied (intersections c' j) = (SENSOR_DELAY cfg < int (length sims)))
    \<and> (run_step cfg step sim d = Inr d' \<and> \<not> fst (candidates cfg sim j)
           \<longrightarrow> \<not> near_sensor_occupied (intersections d' j) \<and> near_detect_time (intersections d' j) = 0)
    \<and> (run_step cfg step sim d = Inr d' \<and> \<not> snd (candidates cfg sim j)
           \<longrightarrow> \<not> far_sensor_occupied (intersections d' j) \<and> far_detect_time (intersections d' j) = 0)"
proof -
  have n: "near_detect_time (intersections c j) = 0 \<and> (\<forall>sim\<in>set sims. fst (candidates cfg sim j))
           \<longrightarrow> near_sensor_occupied (intersections c' j) = (SENSOR_DELAY cfg < int (length sims))"
    using near_start [of sims cfg j c s c'] assms by blast
  have f: "far_detect_time (intersections c j) = 0 \<and> (\<forall>sim\<in>set sims. snd (candidates cfg sim j))
           \<longrightarrow> far_sensor_occupied (intersections c' j) = (SENSOR_DELAY cfg < int (length sims))"
    using far_start [of sims cfg j c s c'] assms by blast
  have rn: "run_step cfg step sim d = Inr d' \<and> \<not> fst (candidates cfg sim j)
           \<longrightarrow> \<not> near_sensor_occupied (intersections d' j) \<and> near_detect_time (intersections d' j) = 0"
    using run_step_reset(1) [of cfg step sim d d' j] assms(1) by blast
  have rf: "run_step cfg step sim d = Inr d' \<and> \<not> snd (candidates cfg sim j)
           \<longrightarrow> \<not> far_sensor_occupied (intersections d' j) \<and> far_detect_time (intersections d' j) = 0"
    using run_step_reset(2) [of cfg step sim d d' j] assms(1) by blast
  from n f rn rf show ?thesis by blast
qed

lemma eleven_ticks_run:
  "drive module_config (replicate 11 (on_r1 [car 5 0])) 1 (SimulationController_init ''rrrrrr'')
     = Inr eleven_ticks"
proof -
  have "\<not> isl (drive module_config (replicate 11 (on_r1 [car 5 0])) 1
                  (SimulationController_init ''rrrrrr''))"
    by code_simp
  then show ?thesis unfolding eleven_ticks_def by simp
qed

lemma gone_run: "run_step module_config 12 quiet eleven_ticks = Inr gone"
proof -
  have "\<not> isl (run_step module_config 12 quiet eleven_ticks)" by code_simp
  then show ?thesis unfolding gone_def by simp
qed

text \<open>
  The eleventh tick in a row sets both flags of the approach 0, and the next tick,
  without the car, clears them and the timers.
\<close>

theorem C4_debounce_witness:
  "near_sensor_occupied (intersections eleven_ticks 0)
   \<and> far_sensor_occupied (intersections eleven_ticks 0)
   \<and> \<not> near_sensor_occupied (intersections gone 0) \<and> near_detect_time (intersections gone 0) = 0
   \<and> \<not> far_sensor_occupied (intersections gone 0) \<and> far_detect_time (intersections gone 0) = 0"
proof -
  have c: "fst (candidates module_config (on_r1 [car 5 0]) 0)"
    "snd (candidates module_config (on_r1 [car 5 0]) 0)"
    "\<not> fst (candidates module_config quiet 0)" "\<not> snd (candidates module_config quiet 0)"
    by code_simp+
  have z: "near_detect_time (intersections (SimulationController_init ''rrrrrr'') 0) = 0"
    "far_detect_time (intersections (SimulationController_init ''rrrrrr'') 0) = 0"
    by (simp_all add: SimulationController_init_def IntersectionState_init_def)
  have d: "SENSOR_DELAY module_config < int (length (replicate 11 (on_r1 [car 5 0])))"
    by (simp add: module_config_def)
  note t = C4_debounce [of 0 1 "replicate 11 (on_r1 [car 5 0])" module_config
      "SimulationController_init ''rrrrrr''" eleven_ticks 12 quiet eleven_ticks gone,
      OF _ _ _ eleven_ticks_run]
  show ?thesis using t c z d gone_run by simp
qed

text \<open>
  The candidate is true on the ten ticks 1 to 10, as many as \<^verbatim>\<open>SENSOR_DELAY\<close>, and
  the flag is not set on the tenth.
\<close>

theorem C4_debounce_counterexample:
  "fst (candidates module_config (on_r1 [car 5 0]) 0)
   \<and> int (length (replicate 10 (on_r1 [car 5 0]))) = SENSOR_DELAY module_config
   \<and> drive module_config (replicate 10 (on_r1 [car 5 0])) 1 (SimulationController_init ''rrrrrr'')
       = Inr ten_ticks
   \<and> \<not> near_sensor_occupied (intersections ten_ticks 0)"
proof -
  have "\<not> isl (drive module_config (replicate 10 (on_r1 [car 5 0])) 1
                  (SimulationController_init ''rrrrrr''))"
    by code_simp
  then have r: "drive module_config (replicate 10 (on_r1 [car 5 0])) 1
      (SimulationController_init ''rrrrrr'') = Inr ten_ticks"
    unfolding ten_ticks_def by simp
  have c: "fst (candidates module_config (on_r1 [car 5 0]) 0)" by code_simp
  have n: "\<not> near_sensor_occupied (intersections ten_ticks 0)" by code_simp
  show ?thesis using r c n by (simp add: module_config_def)
qed

text \<open>
  The origin 0 of a timer also means that the timer is at rest: a candidate that is true
  from the tick 0 on has its origin moved to the tick 1, and the flag is not set on the
  tick 10.
\<close>

lemma debounce_from_tick_0:
  "\<not> near_sensor_occupied (intersections
        (projr (drive module_config (replicate 11 (on_r1 [car 5 0])) 0
                  (SimulationController_init ''rrrrrr''))) 0)
   \<and> near_detect_time (intersections
        (projr (drive module_config (replicate 11 (on_r1 [car 5 0])) 0
                  (SimulationController_init ''rrrrrr''))) 0) = 1"
  by code_simp

subsection \<open>The near sensor lies inside the far sensor\<close>

lemma detect_vehicle_near_far:
  assumes "NEAR_SENSOR_DISTANCE cfg \<le> FAR_SENSOR_DISTANCE cfg" "fst acc \<longrightarrow> snd acc"
  shows "fst (detect_vehicle cfg v acc) \<longrightarrow> snd (detect_vehicle cfg v acc)"
  using assms by (auto simp: detect_vehicle_def Let_def split: sum.splits)

lemma fold_detect_near_far:
  assumes "NEAR_SENSOR_DISTANCE cfg \<le> FAR_SENSOR_DISTANCE cfg" "fst acc \<longrightarrow> snd acc"
  shows "fst (fold (detect_vehicle cfg) vs acc) \<longrightarrow> snd (fold (detect_vehicle cfg) vs acc)"
  using assms(2)
proof (induction vs arbitrary: acc)
  case Nil
  then show ?case by simp
next
  case (Cons v vs)
  have "fst (detect_vehicle cfg v acc) \<longrightarrow> snd (detect_vehicle cfg v acc)"
    using assms(1) Cons.prems by (rule detect_vehicle_near_far)
  from Cons.IH [OF this] show ?case by simp
qed

lemma candidates_near_far:
  assumes "NEAR_SENSOR_DISTANCE cfg \<le> FAR_SENSOR_DISTANCE cfg"
  shows "fst (candidates cfg sim j) \<longrightarrow> snd (candidates cfg sim j)"
  unfolding candidates_def by (rule fold_detect_near_far [OF assms]) simp

lemma persistence_detection_ok:
  assumes "detection_ok n s" "near \<longrightarrow> far"
    and "near_sensor_occupied s' = near_sensor_occupied (near_persistence cfg n near s)"
    and "near_detect_time s' = near_detect_time (near_persistence cfg n near s)"
    and "far_sensor_occupied s' = far_sensor_occupied (far_persistence cfg n far s)"
    and "far_detect_time s' = far_detect_time (far_persistence cfg n far s)"
  shows "detection_ok (n + 1) s'"
proof (cases near)
  case True
  then have far using assms(2) by simp
  with True show ?thesis
    using assms(1) unfolding detection_ok_def assms(3-6)
    by (auto simp: near_persistence_def far_persistence_def Let_def)
next
  case False
  then show ?thesis
    using assms(1) unfolding detection_ok_def assms(3-6)
    by (auto simp: near_persistence_def far_persistence_def Let_def)
qed

lemma run_step_detection_ok:
  assumes "NEAR_SENSOR_DISTANCE cfg \<le> FAR_SENSOR_DISTANCE cfg"
    and "run_step cfg n sim c = Inr c'" "j \<in> {0, 1, 2}"
    and "detection_ok n (intersections c j)"
  shows "detection_ok (n + 1) (intersections c' j)"
  using assms(4) candidates_near_far [OF assms(1)] run_step_detection [OF assms(2,3)]
  by (rule persistence_detection_ok)

lemma drive_detection_ok:
  assumes "NEAR_SENSOR_DISTANCE cfg \<le> FAR_SENSOR_DISTANCE cfg"
    and "\<forall>j\<in>{0, 1, 2}. detection_ok n (intersections c j)"
    and "drive cfg sims n c = Inr c'"
  shows "\<forall>j\<in>{0, 1, 2}. detection_ok (n + int (length sims)) (intersections c' j)"
  using assms(2,3)
proof (induction sims arbitrary: n c)
  case Nil
  then show ?case by simp
next
  case (Cons sim sims)
  from Cons.prems(2) obtain c1 where r: "run_step cfg n sim c = Inr c1"
    and d: "drive cfg sims (n + 1) c1 = Inr c'"
    by (auto split: sum.splits)
  have "\<forall>j\<in>{0, 1, 2}. detection_ok (n + 1) (intersections c1 j)"
    using run_step_detection_ok [OF assms(1) r] Cons.prems(1) by blast
  from Cons.IH [OF this d] show ?case by (simp add: algebra_simps)
qed

lemma init_detection_ok: "detection_ok 0 (intersections (SimulationController_init program) j)"
  by (simp add: detection_ok_def SimulationController_init_def IntersectionState_init_def)

text \<open>
  C10. Binary file, with the near radius no larger than the far radius (20 m and 50 m
  in the file). On every tick the near candidate of an approach implies its far
  candidate. In every state that the loop of \<^verbatim>\<open>main\<close> reaches from the tick 0, a
  running near timer of an approach comes with a running far timer whose origin is no
  later, and a set near flag comes with a set far flag: near occupied and far not
  occupied is never reached.
\<close>

theorem C10_near_implies_far:
  assumes "NEAR_SENSOR_DISTANCE cfg \<le> FAR_SENSOR_DISTANCE cfg"
    and "drive cfg sims 0 (SimulationController_init program) = Inr c"
    and "j \<in> {0, 1, 2}"
  shows "(fst (candidates cfg sim j) \<longrightarrow> snd (candidates cfg sim j))
    \<and> (near_detect_time (intersections c j) \<noteq> 0
          \<longrightarrow> far_detect_time (intersections c j) \<noteq> 0
              \<and> far_detect_time (intersections c j) \<le> near_detect_time (intersections c j))
    \<and> (near_sensor_occupied (intersections c j) \<longrightarrow> far_sensor_occupied (intersections c j))"
proof -
  have "\<forall>j\<in>{0, 1, 2}. detection_ok 0 (intersections (SimulationController_init program) j)"
    by (simp add: init_detection_ok)
  from drive_detection_ok [OF assms(1) this assms(2)] assms(3)
  have "detection_ok (0 + int (length sims)) (intersections c j)" by blast
  then show ?thesis
    using candidates_near_far [OF assms(1), of sim j] unfolding detection_ok_def by blast
qed

text \<open>
  After the run \<open>approaching\<close> the far timer of the approach 0 runs from the tick 1
  and the near timer from the tick 5; both flags are set.
\<close>

theorem C10_near_implies_far_witness:
  "NEAR_SENSOR_DISTANCE module_config \<le> FAR_SENSOR_DISTANCE module_config
   \<and> near_detect_time (intersections car_arrived 0) = 5
   \<and> far_detect_time (intersections car_arrived 0) = 1
   \<and> near_sensor_occupied (intersections car_arrived 0)
   \<and> far_sensor_occupied (intersections car_arrived 0)"
proof -
  have le: "NEAR_SENSOR_DISTANCE module_config \<le> FAR_SENSOR_DISTANCE module_config"
    by (simp add: module_config_def)
  have "\<not> isl (drive module_config approaching 0 (SimulationController_init ''rrrrrr''))"
    by code_simp
  then have r: "drive module_config approaching 0 (SimulationController_init ''rrrrrr'')
      = Inr car_arrived"
    unfolding car_arrived_def by simp
  have v: "near_detect_time (intersections car_arrived 0) = 5"
    "far_detect_time (intersections car_arrived 0) = 1"
    "near_sensor_occupied (intersections car_arrived 0)" by code_simp+
  show ?thesis
    using C10_near_implies_far [OF le r, of 0 quiet] le v by simp
qed

subsection \<open>Zone counts of the queue file\<close>

lemma zone_counts_vehicles_on:
  "zone_counts cfg sim j = fold (count_vehicle cfg) (vehicles_on sim j) (0, 0, 0)"
  by (simp add: zone_counts_def vehicles_on_def)

lemma candidates_vehicles_on:
  "candidates cfg sim j = fold (detect_vehicle cfg) (vehicles_on sim j) (False, False)"
  by (simp add: candidates_def vehicles_on_def)

lemma count_vehicle_module:
  "count_vehicle module_config_q v (a, b, c) =
     (a + (if queued_upto 25 v then 1 else 0),
      b + (if queued_between 25 60 v then 1 else 0),
      c + (if queued_between 60 100 v then 1 else 0))"
  by (auto simp: count_vehicle_def queued_upto_def queued_between_def reading_def
        module_config_q_def Let_def split: sum.splits)

lemma fold_count_vehicle_module:
  "fold (count_vehicle module_config_q) vs (a, b, c) =
     (a + int (length (filter (queued_upto 25) vs)),
      b + int (length (filter (queued_between 25 60) vs)),
      c + int (length (filter (queued_between 60 100) vs)))"
proof (induction vs arbitrary: a b c)
  case Nil
  then show ?case by simp
next
  case (Cons v vs)
  show ?case
    unfolding fold_simps count_vehicle_module Cons.IH by simp
qed

lemma zone_of_vehicle:
  "queued_upto 25 v \<Longrightarrow> \<not> queued_between 25 60 v \<and> \<not> queued_between 60 100 v \<and> queued_upto 100 v"
  "queued_between 25 60 v \<Longrightarrow> \<not> queued_upto 25 v \<and> \<not> queued_between 60 100 v \<and> queued_upto 100 v"
  "queued_between 60 100 v \<Longrightarrow> \<not> queued_upto 25 v \<and> \<not> queued_between 25 60 v \<and> queued_upto 100 v"
  "queued_upto 100 v \<Longrightarrow> queued_upto 25 v \<or> queued_between 25 60 v \<or> queued_between 60 100 v"
  by (auto simp: queued_upto_def queued_between_def split: option.splits)

lemma zones_partition:
  "int (length (filter (queued_upto 25) vs)) + int (length (filter (queued_between 25 60) vs))
     + int (length (filter (queued_between 60 100) vs))
   = int (length (filter (queued_upto 100) vs))"
proof (induction vs)
  case Nil
  then show ?case by simp
next
  case (Cons v vs)
  consider (n) "queued_upto 25 v" | (m) "queued_between 25 60 v" | (f) "queued_between 60 100 v"
    | (none) "\<not> queued_upto 100 v"
    using zone_of_vehicle(4) [of v] by blast
  then show ?case
  proof cases
    case n
    with zone_of_vehicle(1) [OF n] Cons.IH show ?thesis by simp
  next
    case m
    with zone_of_vehicle(2) [OF m] Cons.IH show ?thesis by simp
  next
    case f
    with zone_of_vehicle(3) [OF f] Cons.IH show ?thesis by simp
  next
    case none
    with zone_of_vehicle(1-3) [of v] Cons.IH show ?thesis by auto
  qed
qed

text \<open>
  C6 (amended). Queue file, with the zones of the file. After sensing, the three counts
  of an approach are the numbers of vehicles on its edge that report a speed below
  2.0 m/s and a distance of at most 25 m, of more than 25 m and at most 60 m, and of
  more than 60 m and at most 100 m; their sum, the total queue length, is the number of
  such vehicles within 100 m, each counted in exactly one zone. A vehicle beyond 100 m
  is counted in no zone. The counts do not depend on the counts of the tick before.
\<close>

theorem C6_zone_counts:
  assumes "j \<in> {0, 1, 2}"
  shows "vehicles_near (intersections_q (measure_queue_length module_config_q step sim c) j)
           = int (length (filter (queued_upto 25) (vehicles_on sim j)))
    \<and> vehicles_medium (intersections_q (measure_queue_length module_config_q step sim c) j)
           = int (length (filter (queued_between 25 60) (vehicles_on sim j)))
    \<and> vehicles_far (intersections_q (measure_queue_length module_config_q step sim c) j)
           = int (length (filter (queued_between 60 100) (vehicles_on sim j)))
    \<and> total_queue_length (intersections_q (measure_queue_length module_config_q step sim c) j)
           = int (length (filter (queued_upto 100) (vehicles_on sim j)))"
proof -
  have z: "zone_counts module_config_q sim j =
      (int (length (filter (queued_upto 25) (vehicles_on sim j))),
       int (length (filter (queued_between 25 60) (vehicles_on sim j))),
       int (length (filter (queued_between 60 100) (vehicles_on sim j))))"
    unfolding zone_counts_vehicles_on fold_count_vehicle_module by simp
  show ?thesis
    using assms zones_partition [of "vehicles_on sim j"]
    by (simp add: measure_queue_length_intersections z)
qed

lemma vehicles_on_r1: "vehicles_on (on_r1 vs) 0 = vs"
  by (simp add: vehicles_on_def on_r1_def edge_def)

text \<open>
  In \<open>mixed_queue\<close> the cars at 5 m and at 25 m are near, the car at 30 m is in the
  medium zone and the car at 80 m in the far zone; the car at 150 m, the car at 5 m/s
  and the vehicle whose speed is unknown are not counted. The counts of the state
  before, 7 in each zone, are gone.
\<close>

theorem C6_zone_counts_witness:
  "vehicles_near (intersections_q (measure_queue_length module_config_q 9 (on_r1 mixed_queue)
       ((SimulationController_init_q ''rrrrrr'')
          \<lparr>intersections_q := (\<lambda>i. (IntersectionState_init_q i)
              \<lparr>vehicles_near := 7, vehicles_medium := 7, vehicles_far := 7\<rparr>)\<rparr>)) 0) = 2
   \<and> vehicles_medium (intersections_q (measure_queue_length module_config_q 9 (on_r1 mixed_queue)
       ((SimulationController_init_q ''rrrrrr'')
          \<lparr>intersections_q := (\<lambda>i. (IntersectionState_init_q i)
              \<lparr>vehicles_near := 7, vehicles_medium := 7, vehicles_far := 7\<rparr>)\<rparr>)) 0) = 1
   \<and> vehicles_far (intersections_q (measure_queue_length module_config_q 9 (on_r1 mixed_queue)
       ((SimulationController_init_q ''rrrrrr'')
          \<lparr>intersections_q := (\<lambda>i. (IntersectionState_init_q i)
              \<lparr>vehicles_near := 7, vehicles_medium := 7, vehicles_far := 7\<rparr>)\<rparr>)) 0) = 1
   \<and> total_queue_length (intersections_q (measure_queue_length module_config_q 9 (on_r1 mixed_queue)
       ((SimulationController_init_q ''rrrrrr'')
          \<lparr>intersections_q := (\<lambda>i. (IntersectionState_init_q i)
              \<lparr>vehicles_near := 7, vehicles_medium := 7, vehicles_far := 7\<rparr>)\<rparr>)) 0) = 4"
proof -
  have f: "int (length (filter (queued_upto 25) mixed_queue)) = 2"
    "int (length (filter (queued_between 25 60) mixed_queue)) = 1"
    "int (length (filter (queued_between 60 100) mixed_queue)) = 1"
    "int (length (filter (queued_upto 100) mixed_queue)) = 4"
    by code_simp+
  show ?thesis
    using C6_zone_counts [of 0 9 "on_r1 mixed_queue"
       "(SimulationController_init_q ''rrrrrr'')
          \<lparr>intersections_q := (\<lambda>i. (IntersectionState_init_q i)
              \<lparr>vehicles_near := 7, vehicles_medium := 7, vehicles_far := 7\<rparr>)\<rparr>"]
    by (simp add: vehicles_on_r1 f)
qed

text \<open>
  A car on the edge of the approach 0, 150 m from the stop line and standing still, is
  slower than 2.0 m/s and is counted in no zone.
\<close>

theorem C6_zone_counts_counterexample:
  "vehicles_on (on_r1 [car 150 0]) 0 = [car 150 0]
   \<and> reading (car 150 0) = Some (150, 0)
   \<and> zone_counts module_config_q (on_r1 [car 150 0]) 0 = (0, 0, 0)
   \<and> total_queue_length (intersections_q
        (measure_queue_length module_config_q 9 (on_r1 [car 150 0])
           (SimulationController_init_q ''rrrrrr'')) 0) = 0"
  by code_simp

subsection \<open>Failing queries\<close>

lemma detect_vehicle_unread:
  "reading v = None \<Longrightarrow> detect_vehicle cfg v acc = acc"
  by (auto simp: reading_def detect_vehicle_def split: sum.splits)

lemma count_vehicle_unread:
  "reading v = None \<Longrightarrow> count_vehicle cfg v acc = acc"
  by (auto simp: reading_def count_vehicle_def split: sum.splits)

lemma vehicles_on_failed:
  "getLastStepVehicleIDs sim (edge j) = Inl e \<Longrightarrow> vehicles_on sim j = []"
  by (simp add: vehicles_on_def)

lemma update_sensors_own_feed:
  assumes "vehicles_on sim j = vehicles_on sim' j"
  shows "intersections (update_sensors cfg step sim c) j
       = intersections (update_sensors cfg step sim' c) j"
  using assms by (simp add: update_sensors_intersections candidates_vehicles_on)

lemma measure_queue_length_own_feed:
  assumes "vehicles_on sim j = vehicles_on sim' j"
  shows "intersections_q (measure_queue_length cfg step sim c) j
       = intersections_q (measure_queue_length cfg step sim' c) j"
  using assms by (simp add: measure_queue_length_intersections zone_counts_vehicles_on)

text \<open>
  C8 (amended). Fail-open sensing, in both files. Sensing has no failing branch: it
  returns a state whatever the queries answer. When the query of the vehicles of an
  edge fails, the approach is sensed as with no vehicle on the edge (false candidates,
  zero counts). When a query on one vehicle fails, that vehicle alone is left out: the
  approach is sensed as if the vehicle were not on the edge, and the other vehicles
  count. What sensing stores for an approach depends on the vehicles of its own edge
  only, not on the queries of the other edges.
\<close>

theorem C8_fail_open:
  "(getLastStepVehicleIDs sim (edge j) = Inl e
      \<longrightarrow> candidates cfg sim j = (False, False) \<and> zone_counts cfg_q sim j = (0, 0, 0))
   \<and> (reading v = None \<and> vehicles_on sim j = before @ v # after
        \<and> vehicles_on sim' j = before @ after
      \<longrightarrow> candidates cfg sim j = candidates cfg sim' j
          \<and> zone_counts cfg_q sim j = zone_counts cfg_q sim' j)
   \<and> (vehicles_on sim j = vehicles_on sim' j
      \<longrightarrow> intersections (update_sensors cfg step sim c) j
            = intersections (update_sensors cfg step sim' c) j
          \<and> intersections_q (measure_queue_length cfg_q step sim q) j
            = intersections_q (measure_queue_length cfg_q step sim' q) j)"
proof -
  have a: "getLastStepVehicleIDs sim (edge j) = Inl e
      \<longrightarrow> candidates cfg sim j = (False, False) \<and> zone_counts cfg_q sim j = (0, 0, 0)"
    by (simp add: candidates_def zone_counts_def)
  have b: "reading v = None \<and> vehicles_on sim j = before @ v # after
        \<and> vehicles_on sim' j = before @ after
      \<longrightarrow> candidates cfg sim j = candidates cfg sim' j
          \<and> zone_counts cfg_q sim j = zone_counts cfg_q sim' j"
    by (simp add: candidates_vehicles_on zone_counts_vehicles_on detect_vehicle_unread
          count_vehicle_unread)
  have c: "vehicles_on sim j = vehicles_on sim' j
      \<longrightarrow> intersections (update_sensors cfg step sim c) j
            = intersections (update_sensors cfg step sim' c) j
          \<and> intersections_q (measure_queue_length cfg_q step sim q) j
            = intersections_q (measure_queue_length cfg_q step sim' q) j"
    using update_sensors_own_feed measure_queue_length_own_feed by blast
  from a b c show ?thesis by blast
qed

text \<open>
  On the tick \<open>r1_down\<close> the approach 0 is sensed as empty and the approach 1 sees its
  car; the vehicle \<open>broken\<close> in front of a stopped car changes nothing.
\<close>

theorem C8_fail_open_witness:
  "getLastStepVehicleIDs r1_down (edge 0) = Inl TraCIException
   \<and> candidates module_config r1_down 0 = (False, False)
   \<and> zone_counts module_config_q r1_down 0 = (0, 0, 0)
   \<and> candidates module_config r1_down 1 = (True, True)
   \<and> zone_counts module_config_q r1_down 1 = (1, 0, 0)
   \<and> reading broken = None
   \<and> candidates module_config (on_r1 [broken, car 5 0]) 0
       = candidates module_config (on_r1 [car 5 0]) 0
   \<and> zone_counts module_config_q (on_r1 [broken, car 5 0]) 0
       = zone_counts module_config_q (on_r1 [car 5 0]) 0"
proof -
  have f: "getLastStepVehicleIDs r1_down (edge 0) = Inl TraCIException"
    by (simp add: r1_down_def edge_def)
  have r: "reading broken = None" by (simp add: reading_def broken_def)
  have o: "candidates module_config r1_down 1 = (True, True)"
    "zone_counts module_config_q r1_down 1 = (1, 0, 0)" by code_simp+
  have v: "vehicles_on (on_r1 [broken, car 5 0]) 0 = [] @ broken # [car 5 0]"
    "vehicles_on (on_r1 [car 5 0]) 0 = [] @ [car 5 0]"
    by (simp_all add: vehicles_on_r1)
  note t1 = C8_fail_open [of r1_down 0 TraCIException module_config module_config_q]
  note t2 = C8_fail_open [of "on_r1 [broken, car 5 0]" 0 _ module_config module_config_q
      broken "[]" "[car 5 0]" "on_r1 [car 5 0]"]
  show ?thesis using t1 t2 f r o v by simp
qed

text \<open>
  A query on one vehicle of the approach 0 fails, and the approach is not sensed as
  empty: the stopped car behind sets both candidates and is counted in the near zone.
\<close>

theorem C8_fail_open_counterexample:
  "vehicles_on (on_r1 [broken, car 5 0]) 0 = [broken, car 5 0]
   \<and> getSpeed broken = Inl TraCIException
   \<and> candidates module_config (on_r1 [broken, car 5 0]) 0 = (True, True)
   \<and> zone_counts module_config_q (on_r1 [broken, car 5 0]) 0 = (1, 0, 0)"
  by code_simp

text \<open>
  The metric loops of \<^verbatim>\<open>run_step\<close> ask for the vehicles of every edge again,
  outside any \<^verbatim>\<open>try\<close>: when the query of an edge fails, the tick ends with the
  exception before the lights are looked at.
\<close>

lemma track_waiting_failed_edge:
  assumes "getLastStepVehicleIDs sim (edge j) = Inl e" "j \<in> set idxs"
  shows "isl (track_waiting sim idxs waiting)"
  using assms(2)
proof (induction idxs arbitrary: waiting)
  case Nil
  then show ?case by simp
next
  case (Cons i idxs)
  show ?case
  proof (cases "i = j")
    case True
    then show ?thesis using assms(1) by simp
  next
    case False
    then have "j \<in> set idxs" using Cons.prems by simp
    from Cons.IH [OF this] show ?thesis by (simp split: sum.splits)
  qed
qed

lemma run_step_failed_edge:
  assumes "getLastStepVehicleIDs sim (edge j) = Inl e" "j \<in> {0, 1, 2}"
  shows "isl (run_step cfg step sim c)" and "isl (run_step_q cfg_q step sim q)"
proof -
  have j: "j \<in> set range3" using assms(2) by (auto simp: range3_def)
  note t = track_waiting_failed_edge [OF assms(1) j]
  show "isl (run_step cfg step sim c)"
    using t [of "total_waiting_time (update_sensors cfg step sim c)"]
    by (auto simp: run_step_def Let_def split: sum.splits)
  show "isl (run_step_q cfg_q step sim q)"
    using t [of "total_waiting_time_q (measure_queue_length cfg_q step sim q)"]
    by (auto simp: run_step_q_def Let_def split: sum.splits)
qed

subsection \<open>The configuration is never checked\<close>

lemma count_waiting_isl: "isl (count_waiting vs w) = isl (count_waiting vs w')"
proof (induction vs arbitrary: w w')
  case Nil
  then show ?case by simp
next
  case (Cons v vs)
  show ?case
  proof (cases "getSpeed v")
    case (Inl e)
    then show ?thesis by simp
  next
    case (Inr speed)
    then show ?thesis
      using Cons.IH [of "if speed < 0.1 then w + 1 else w" "if speed < 0.1 then w' + 1 else w'"]
      by simp
  qed
qed

lemma track_waiting_isl: "isl (track_waiting sim idxs w) = isl (track_waiting sim idxs w')"
proof (induction idxs arbitrary: w w')
  case Nil
  then show ?case by simp
next
  case (Cons i idxs)
  show ?case
  proof (cases "getLastStepVehicleIDs sim (edge i)")
    case (Inl e)
    then show ?thesis by simp
  next
    case (Inr ids)
    show ?thesis
    proof (cases "count_waiting ids w")
      case l: (Inl e)
      then have "isl (count_waiting ids w')" using count_waiting_isl [of ids w w'] by simp
      then obtain e' where "count_waiting ids w' = Inl e'" by (cases "count_waiting ids w'") auto
      then show ?thesis using Inr l by simp
    next
      case r: (Inr w1)
      then have "\<not> isl (count_waiting ids w')" using count_waiting_isl [of ids w w'] by simp
      then obtain w1' where "count_waiting ids w' = Inr w1'"
        by (cases "count_waiting ids w'") auto
      then show ?thesis using Inr r Cons.IH [of w1 w1'] by simp
    qed
  qed
qed

lemma run_step_isl:
  "isl (run_step cfg step sim c) = (isl (track_waiting sim range3 0) \<or> isl (getArrivedIDList sim))"
  using track_waiting_isl [of sim range3 "total_waiting_time (update_sensors cfg step sim c)" 0]
  by (auto simp: run_step_def Let_def split: sum.splits)

lemma run_step_q_isl:
  "isl (run_step_q cfg step sim c) = (isl (track_waiting sim range3 0) \<or> isl (getArrivedIDList sim))"
  using track_waiting_isl [of sim range3 "total_waiting_time_q (measure_queue_length cfg step sim c)" 0]
  by (auto simp: run_step_q_def Let_def split: sum.splits)

lemma give_green_planned_inverted:
  assumes "G_MAX cfg < G_MIN cfg"
  shows "planned_duration (intersections (give_green cfg w step c) w) = round1 (G_MAX cfg)"
  using assms by (simp add: give_green_def Let_def set_traffic_light_simps)

lemma give_green_planned_inverted_q:
  assumes "G_MAX_q cfg < G_MIN_q cfg"
  shows "planned_duration_q (intersections_q (give_green_q cfg w step c) w) = round1 (G_MAX_q cfg)"
  using assms
  by (simp add: give_green_q_def calculate_green_time_def Let_def set_traffic_light_simps_q)

lemma run_step_gap_end_inverted:
  assumes "run_step cfg step sim c = Inr c'" "is_all_red c"
    "ALL_RED_TIME cfg \<le> real_of_int (step - all_red_start c)" "G_MAX cfg < G_MIN cfg"
  shows "planned_duration (intersections c' (active_idx c')) = round1 (G_MAX cfg)"
proof -
  obtain w a where c': "c' = light_control cfg step
      ((update_sensors cfg step sim c)\<lparr>total_waiting_time := w, vehicles_processed := a\<rparr>)"
    (is "c' = light_control _ _ ?c1")
    using run_step_Inr [OF assms(1)] by blast
  have r: "is_all_red ?c1" "ALL_RED_TIME cfg \<le> real_of_int (step - all_red_start ?c1)"
    using assms(2,3) by (simp_all add: update_sensors_frame)
  show ?thesis
    unfolding c' light_control_gap_end [OF r]
    by (simp add: give_green_simps give_green_planned_inverted [OF assms(4)])
qed

lemma run_step_gap_end_inverted_q:
  assumes "run_step_q cfg step sim c = Inr c'" "is_all_red_q c"
    "ALL_RED_TIME_q cfg \<le> real_of_int (step - all_red_start_q c)" "G_MAX_q cfg < G_MIN_q cfg"
  shows "planned_duration_q (intersections_q c' (active_idx_q c')) = round1 (G_MAX_q cfg)"
proof -
  obtain w a where c': "c' = light_control_q cfg step
      ((measure_queue_length cfg step sim c)\<lparr>total_waiting_time_q := w, vehicles_processed_q := a\<rparr>)"
    (is "c' = light_control_q _ _ ?c1")
    using run_step_Inr_q [OF assms(1)] by blast
  have r: "is_all_red_q ?c1" "ALL_RED_TIME_q cfg \<le> real_of_int (step - all_red_start_q ?c1)"
    using assms(2,3) by (simp_all add: measure_queue_length_frame)
  show ?thesis
    unfolding c' light_control_gap_end_q [OF r]
    by (simp add: give_green_simps_q give_green_planned_inverted_q [OF assms(4)])
qed

text \<open>
  C9 (amended). Neither file checks its configuration. The constructor reads no
  constant and has no failing branch. A tick raises exactly when one of the queries of
  its metric loops fails, whatever the constants are, so no configuration is rejected
  before or during the run; the values are used as given. With \<^verbatim>\<open>G_MIN > G_MAX\<close>
  the tick that ends a gap plans a green of \<^verbatim>\<open>round(G_MAX, 1)\<close>, below
  \<^verbatim>\<open>G_MIN\<close>.
\<close>

theorem C9_no_validation:
  "isl (run_step cfg step sim c) = (isl (track_waiting sim range3 0) \<or> isl (getArrivedIDList sim))
   \<and> isl (run_step_q cfg_q step sim q)
        = (isl (track_waiting sim range3 0) \<or> isl (getArrivedIDList sim))
   \<and> (G_MAX cfg < G_MIN cfg \<and> is_all_red c
        \<and> ALL_RED_TIME cfg \<le> real_of_int (step - all_red_start c)
        \<and> run_step cfg step sim c = Inr c'
       \<longrightarrow> planned_duration (intersections c' (active_idx c')) = round1 (G_MAX cfg))
   \<and> (G_MAX_q cfg_q < G_MIN_q cfg_q \<and> is_all_red_q q
        \<and> ALL_RED_TIME_q cfg_q \<le> real_of_int (step - all_red_start_q q)
        \<and> run_step_q cfg_q step sim q = Inr q'
       \<longrightarrow> planned_duration_q (intersections_q q' (active_idx_q q')) = round1 (G_MAX_q cfg_q))"
  using run_step_isl [of cfg step sim c] run_step_q_isl [of cfg_q step sim q]
    run_step_gap_end_inverted [of cfg step sim c c']
    run_step_gap_end_inverted_q [of cfg_q step sim q q']
  by blast

text \<open>
  With \<^verbatim>\<open>G_MIN = 50.0\<close> the tick 1 returns and plans a green of 40 s for the
  approach 0.
\<close>

theorem C9_no_validation_witness:
  "G_MAX inverted < G_MIN inverted
   \<and> \<not> isl (run_step inverted 1 quiet (SimulationController_init ''rrrrrr''))
   \<and> active_idx (projr (run_step inverted 1 quiet (SimulationController_init ''rrrrrr''))) = 0
   \<and> planned_duration (intersections
        (projr (run_step inverted 1 quiet (SimulationController_init ''rrrrrr''))) 0) = 40"
proof -
  have i: "G_MAX inverted < G_MIN inverted" "G_MAX inverted = 40" "ALL_RED_TIME inverted = 1"
    by (simp_all add: inverted_def module_config_def)
  have n: "\<not> isl (run_step inverted 1 quiet (SimulationController_init ''rrrrrr''))"
    by code_simp
  then have r: "run_step inverted 1 quiet (SimulationController_init ''rrrrrr'')
      = Inr (projr (run_step inverted 1 quiet (SimulationController_init ''rrrrrr'')))"
    by simp
  have a: "active_idx (projr (run_step inverted 1 quiet (SimulationController_init ''rrrrrr''))) = 0"
    by code_simp
  have g: "is_all_red (SimulationController_init ''rrrrrr'')"
    "all_red_start (SimulationController_init ''rrrrrr'') = 0"
    by (simp_all add: SimulationController_init_def)
  have r40: "round1 40 = 40" by (simp add: round1_def)
  note t = C9_no_validation [of inverted 1 quiet "SimulationController_init ''rrrrrr''" _ _
      "projr (run_step inverted 1 quiet (SimulationController_init ''rrrrrr''))"]
  show ?thesis using t i n r a g r40 by simp
qed

text \<open>
  The file with \<^verbatim>\<open>G_MIN = 50.0\<close> and \<^verbatim>\<open>G_MAX = 40.0\<close>: the controller is built,
  the ticks 0 and 1 return, and the approach 0 is given a green of 40 s.
\<close>

theorem C9_no_validation_counterexample:
  "G_MAX inverted < G_MIN inverted
   \<and> drive inverted [quiet, quiet] 0 (SimulationController_init ''rrrrrr'') = Inr inverted_green
   \<and> current_light (intersections inverted_green 0) = ''G''
   \<and> planned_duration (intersections inverted_green 0) = 40"
proof -
  have i: "G_MAX inverted < G_MIN inverted"
    by (simp add: inverted_def module_config_def)
  have "\<not> isl (drive inverted [quiet, quiet] 0 (SimulationController_init ''rrrrrr''))"
    by code_simp
  then have r: "drive inverted [quiet, quiet] 0 (SimulationController_init ''rrrrrr'')
      = Inr inverted_green"
    unfolding inverted_green_def by simp
  have v: "current_light (intersections inverted_green 0) = ''G''"
    "planned_duration (intersections inverted_green 0) = 40" by code_simp+
  show ?thesis using i r v by simp
qed

end
